theory Spec2Isabelle
  imports Main "HOL-Library.Word"
begin

unbundle bit_operations_syntax

section \<open>Python values and exceptions\<close>

text \<open>
  The engine of \<^verbatim>\<open>src/llm_engine.py\<close> works on Python text and on the values that
  \<^verbatim>\<open>json.loads\<close> produces. A Python \<^verbatim>\<open>str\<close> is modelled as a \<^typ>\<open>string\<close> whose
  characters are the code points 0..255 (ASCII and Latin-1), one \<^typ>\<open>char\<close> per code point;
  the character tables below (\<^verbatim>\<open>isspace\<close>, \<^verbatim>\<open>isupper\<close>, \<^verbatim>\<open>lower\<close>, \<^verbatim>\<open>upper\<close>, the regular
  expression classes) are those of Python 3 on that range. Python integers are unbounded
  (\<^typ>\<open>int\<close>); interpreter resource limits (recursion depth, digit limits) are not modelled.
\<close>

datatype error =
    JSONDecodeError
  | ValueError
  | TypeError
  | OverflowError
  | AttributeError
  | IndexError
  | RequestException
  | CannotConnectToOllama
  | OllamaConnectionError

section \<open>Text primitives\<close>

definition code :: "char \<Rightarrow> nat" where
  "code c = of_char c"

definition isspace :: "char \<Rightarrow> bool" where
  "isspace c = (let n = code c in
     (9 \<le> n \<and> n \<le> 13) \<or> (28 \<le> n \<and> n \<le> 32) \<or> n = 133 \<or> n = 160)"

definition isdigit :: "char \<Rightarrow> bool" where
  "isdigit c = (let n = code c in 48 \<le> n \<and> n \<le> 57)"

definition isupper :: "char \<Rightarrow> bool" where
  "isupper c = (let n = code c in
     (65 \<le> n \<and> n \<le> 90) \<or> (192 \<le> n \<and> n \<le> 222 \<and> n \<noteq> 215))"

definition islower_cased :: "char \<Rightarrow> bool" where
  "islower_cased c = (let n = code c in
     (97 \<le> n \<and> n \<le> 122) \<or> (224 \<le> n \<and> n \<le> 254 \<and> n \<noteq> 247))"

text \<open>\<^verbatim>\<open>\w\<close> of the \<^verbatim>\<open>re\<close> module on text patterns: alphanumeric characters and the underscore.\<close>

definition isword :: "char \<Rightarrow> bool" where
  "isword c = (let n = code c in
     (48 \<le> n \<and> n \<le> 57) \<or> (65 \<le> n \<and> n \<le> 90) \<or> n = 95 \<or> (97 \<le> n \<and> n \<le> 122) \<or>
     n = 170 \<or> n = 178 \<or> n = 179 \<or> n = 181 \<or> n = 185 \<or> n = 186 \<or>
     (188 \<le> n \<and> n \<le> 190) \<or> (192 \<le> n \<and> n \<noteq> 215 \<and> n \<noteq> 247))"

definition lower_char :: "char \<Rightarrow> char" where
  "lower_char c = (if isupper c then char_of (code c + 32) else c)"

definition lower :: "string \<Rightarrow> string" where
  "lower s = map lower_char s"

text \<open>
  \<^verbatim>\<open>str.upper\<close>: the sharp s (U+00DF) becomes \<^verbatim>\<open>SS\<close>. The upper-case forms of U+00B5 and
  U+00FF lie outside the modelled range; they are not ASCII, the only use of \<^verbatim>\<open>upper\<close> is a
  search for ASCII needles, and so these two characters are left as they are.
\<close>

definition upper_char :: "char \<Rightarrow> string" where
  "upper_char c = (if code c = 223 then ''SS''
     else if islower_cased c then [char_of (code c - 32)] else [c])"

definition upper :: "string \<Rightarrow> string" where
  "upper s = concat (map upper_char s)"

definition lstrip :: "string \<Rightarrow> string" where
  "lstrip s = dropWhile isspace s"

definition rstrip :: "string \<Rightarrow> string" where
  "rstrip s = rev (dropWhile isspace (rev s))"

definition strip :: "string \<Rightarrow> string" where
  "strip s = rstrip (lstrip s)"

text \<open>\<^verbatim>\<open>s.lstrip(chars)\<close> removes leading characters that occur in \<^verbatim>\<open>chars\<close>.\<close>

definition lstrip_chars :: "string \<Rightarrow> string \<Rightarrow> string" where
  "lstrip_chars chars s = dropWhile (\<lambda>c. List.member chars c) s"

fun startswith :: "string \<Rightarrow> string \<Rightarrow> bool" where
  "startswith s [] = True"
| "startswith [] (p # ps) = False"
| "startswith (c # cs) (p # ps) = (c = p \<and> startswith cs ps)"

text \<open>\<^verbatim>\<open>needle in hay\<close> on text.\<close>

fun contains :: "string \<Rightarrow> string \<Rightarrow> bool" where
  "contains [] needle = (needle = [])"
| "contains (c # cs) needle = (startswith (c # cs) needle \<or> contains cs needle)"

text \<open>\<^verbatim>\<open>s.split(sep)\<close> for a one-character separator: never empty, \<^verbatim>\<open>''.split(sep) == ['']\<close>.\<close>

fun split_char :: "char \<Rightarrow> string \<Rightarrow> string list" where
  "split_char sep [] = [[]]"
| "split_char sep (c # cs) =
     (if c = sep then [] # split_char sep cs
      else (case split_char sep cs of
              [] \<Rightarrow> [[c]]
            | p # ps \<Rightarrow> (c # p) # ps))"

text \<open>\<^verbatim>\<open>re.search\<close> of an alternation of literal words: some word occurs in the text.\<close>

definition search_words :: "string list \<Rightarrow> string \<Rightarrow> bool" where
  "search_words ws s = list_ex (contains s) ws"

text \<open>\<^verbatim>\<open>\d{4}\<close> matched at the start of the text.\<close>

fun four_digits :: "string \<Rightarrow> bool" where
  "four_digits (a # b # c # d # rest) = (isdigit a \<and> isdigit b \<and> isdigit c \<and> isdigit d)"
| "four_digits s = False"

text \<open>\<^verbatim>\<open>re.search(r'\d{4}', line)\<close> as a truth value.\<close>

fun search_four_digits :: "string \<Rightarrow> bool" where
  "search_four_digits [] = False"
| "search_four_digits (c # cs) = (four_digits (c # cs) \<or> search_four_digits cs)"

text \<open>
  \<^verbatim>\<open>(\d{4})\s*-\s*(\d{4}|present)\<close> with \<^verbatim>\<open>re.IGNORECASE\<close>, matched at the start of the text;
  the result is the matched text (\<^verbatim>\<open>group(0)\<close>). The greedy \<^verbatim>\<open>\s*\<close> never has to give
  characters back, since neither the dash nor the alternatives begin with white space.
\<close>

definition match_year_range :: "string \<Rightarrow> string option" where
  "match_year_range s =
     (if four_digits s then
        (let r1 = drop 4 s; ws1 = takeWhile isspace r1; r2 = dropWhile isspace r1 in
         (case r2 of
            [] \<Rightarrow> None
          | d # r3 \<Rightarrow>
              if d = CHR ''-'' then
                (let ws2 = takeWhile isspace r3; r4 = dropWhile isspace r3 in
                 if four_digits r4 then Some (take 4 s @ ws1 @ [d] @ ws2 @ take 4 r4)
                 else if lower (take 7 r4) = ''present''
                   then Some (take 4 s @ ws1 @ [d] @ ws2 @ take 7 r4)
                 else None)
              else None))
      else None)"

fun search_year_range :: "string \<Rightarrow> string option" where
  "search_year_range [] = None"
| "search_year_range (c # cs) =
     (case match_year_range (c # cs) of
        Some m \<Rightarrow> Some m
      | None \<Rightarrow> search_year_range cs)"

text \<open>
  \<^verbatim>\<open>\b(19|20)\d{2}\b\<close>: the match at the start of the text, given that a word boundary
  precedes it; the boundary after the four digits is the end of the text or a non-word
  character.
\<close>

fun match_year :: "string \<Rightarrow> bool" where
  "match_year (a # b # c # d # rest) =
     (((a = CHR ''1'' \<and> b = CHR ''9'') \<or> (a = CHR ''2'' \<and> b = CHR ''0'')) \<and>
      isdigit c \<and> isdigit d \<and>
      (case rest of [] \<Rightarrow> True | r # _ \<Rightarrow> \<not> isword r))"
| "match_year s = False"

text \<open>The search carries the character before the current position, for the leading \<^verbatim>\<open>\b\<close>.\<close>

fun search_year :: "char option \<Rightarrow> string \<Rightarrow> string option" where
  "search_year prev [] = None"
| "search_year prev (c # cs) =
     (if (case prev of None \<Rightarrow> True | Some p \<Rightarrow> \<not> isword p) \<and> match_year (c # cs)
      then Some (take 4 (c # cs))
      else search_year (Some c) cs)"

section \<open>Fallback extractors for experience and education\<close>

record experience_entry =
  role :: string
  company :: string
  duration :: string
  details :: "string list"

record education_entry =
  degree :: string
  institution :: string
  year :: string

text \<open>
  The bullet test of \<^verbatim>\<open>_extract_experience\<close> has three alternatives. The first literal of
  the source is the three-character text U+00E2 U+20AC U+00A2; its middle character is
  outside the modelled range, so no modelled line starts with it, and of its characters
  only U+00E2 and U+00A2 can be met by \<^verbatim>\<open>lstrip\<close>.
\<close>

definition is_bullet_line :: "string \<Rightarrow> bool" where
  "is_bullet_line line = (startswith line ''-'' \<or> startswith line ''*'')"

definition bullet_chars :: "string" where
  "bullet_chars = [CHR 0xE2, CHR 0xA2, CHR ''-'', CHR ''*'', CHR '' '']"

definition new_experience :: "string \<Rightarrow> experience_entry" where
  "new_experience line =
     \<lparr>role = strip line, company = ''Company Name'',
      duration = (case search_year_range line of Some m \<Rightarrow> m | None \<Rightarrow> ''''),
      details = []\<rparr>"

definition flush :: "experience_entry option \<Rightarrow> experience_entry list \<Rightarrow> experience_entry list" where
  "flush current_exp experience =
     (case current_exp of None \<Rightarrow> experience | Some e \<Rightarrow> experience @ [e])"

text \<open>
  The loop of \<^verbatim>\<open>_extract_experience\<close> over the lines, with its three variables
  \<^verbatim>\<open>in_experience\<close>, \<^verbatim>\<open>current_exp\<close> and \<^verbatim>\<open>experience\<close>. The result is the state when the
  loop is left, by exhaustion or by \<^verbatim>\<open>break\<close>; \<^verbatim>\<open>current_exp\<close> is still set after the
  \<^verbatim>\<open>break\<close>.
\<close>

fun experience_loop ::
  "bool \<Rightarrow> experience_entry option \<Rightarrow> experience_entry list \<Rightarrow> string list
   \<Rightarrow> experience_entry option \<times> experience_entry list" where
  "experience_loop in_experience current_exp experience [] = (current_exp, experience)"
| "experience_loop in_experience current_exp experience (line # lines) =
     (let line_lower = strip (lower line) in
      if search_words [''experience'', ''employment'', ''work history''] line_lower
        then experience_loop True current_exp experience lines
      else if in_experience \<and> search_words [''education'', ''skills'', ''certifications''] line_lower
        then (current_exp, flush current_exp experience)
      else if in_experience \<and> strip line \<noteq> [] then
        (if list_ex isupper line \<or> search_four_digits line
           then experience_loop in_experience (Some (new_experience line))
                  (flush current_exp experience) lines
         else (case current_exp of
                 None \<Rightarrow> experience_loop in_experience current_exp experience lines
               | Some e \<Rightarrow>
                   if is_bullet_line line then
                     (let detail = strip (lstrip_chars bullet_chars line) in
                      if detail \<noteq> []
                        then experience_loop in_experience
                               (Some (e\<lparr>details := details e @ [detail]\<rparr>)) experience lines
                        else experience_loop in_experience current_exp experience lines)
                   else experience_loop in_experience current_exp experience lines))
      else experience_loop in_experience current_exp experience lines)"

definition experience_template :: "experience_entry" where
  "experience_template =
     \<lparr>role = ''Professional Experience'', company = ''Previous Employer'',
      duration = ''Years'',
      details = [''Led key projects and initiatives'',
                 ''Collaborated with cross-functional teams'',
                 ''Delivered measurable results'']\<rparr>"

text \<open>The entries found by the scan, before the template and the truncation.\<close>

definition experience_found :: "string \<Rightarrow> experience_entry list" where
  "experience_found resume_text =
     (case experience_loop False None [] (split_char CHR 0x0A resume_text) of
        (current_exp, experience) \<Rightarrow> flush current_exp experience)"

definition extract_experience :: "string \<Rightarrow> experience_entry list" where
  "extract_experience resume_text =
     (let experience = experience_found resume_text;
          experience = (if experience = [] then [experience_template] else experience)
      in take 3 experience)"

definition new_education :: "string \<Rightarrow> education_entry" where
  "new_education line =
     \<lparr>degree = strip line, institution = '''',
      year = (case search_year None line of Some m \<Rightarrow> m | None \<Rightarrow> '''')\<rparr>"

fun education_loop :: "bool \<Rightarrow> education_entry list \<Rightarrow> string list \<Rightarrow> education_entry list" where
  "education_loop in_education education [] = education"
| "education_loop in_education education (line # lines) =
     (let line_lower = strip (lower line) in
      if search_words [''education'', ''academic'', ''degree''] line_lower
        then education_loop True education lines
      else if in_education \<and> search_words [''experience'', ''skills'', ''certifications''] line_lower
        then education
      else if in_education \<and> strip line \<noteq> [] then
        (if list_ex (contains line_lower)
              [''bachelor'', ''master'', ''phd'', ''degree'', ''university'', ''college'']
           then education_loop in_education (education @ [new_education line]) lines
         else education_loop in_education education lines)
      else education_loop in_education education lines)"

definition education_template :: "education_entry" where
  "education_template = \<lparr>degree = ''Bachelor's Degree'', institution = ''University'', year = ''''\<rparr>"

definition education_found :: "string \<Rightarrow> education_entry list" where
  "education_found resume_text = education_loop False [] (split_char CHR 0x0A resume_text)"

definition extract_education :: "string \<Rightarrow> education_entry list" where
  "extract_education resume_text =
     (let education = education_found resume_text;
          education = (if education = [] then [education_template] else education)
      in take 2 education)"

section \<open>Floating-point numbers\<close>

text \<open>
  A Python \<^verbatim>\<open>float\<close> is an IEEE 754 binary64 number. \<open>Finite neg m u\<close> is the number
  \<open>(-1)\<^bsup>neg\<^esup> * m * 2\<^bsup>u\<^esup>\<close> with significand \<open>m < 2\<^bsup>53\<^esup>\<close> and \<open>-1074 \<le> u \<le> 971\<close>, where
  \<open>2\<^bsup>52\<^esup> \<le> m\<close> unless \<open>u = -1074\<close>; this representation is unique. Zero is \<open>Finite neg 0 (-1074)\<close>.
\<close>

datatype pyfloat = Finite bool nat int | Infinity bool | NaN

fun bit_length :: "nat \<Rightarrow> nat" where
  "bit_length n = (if n = 0 then 0 else Suc (bit_length (n div 2)))"

declare bit_length.simps [simp del]

text \<open>The quotient \<open>num / den\<close> rounded to the nearest integer, ties to the even one.\<close>

definition round_half_even :: "nat \<Rightarrow> nat \<Rightarrow> nat" where
  "round_half_even num den =
     (let q = num div den; r = num mod den in
      if den < 2 * r \<or> (2 * r = den \<and> odd q) then q + 1 else q)"

text \<open>For positive \<open>num\<close> and \<open>den\<close>, the \<open>e\<close> with \<open>2\<^bsup>e\<^esup> \<le> num / den < 2\<^bsup>e+1\<^esup>\<close>.\<close>

definition floor_log2 :: "nat \<Rightarrow> nat \<Rightarrow> int" where
  "floor_log2 num den =
     (let e0 = int (bit_length num) - int (bit_length den) in
      if (if 0 \<le> e0 then den * 2 ^ nat e0 \<le> num else den \<le> num * 2 ^ nat (- e0))
      then e0 else e0 - 1)"

text \<open>
  Round-to-nearest-even of the rational \<open>(-1)\<^bsup>neg\<^esup> * num / den\<close> to binary64, as the correctly
  rounded conversion of \<^verbatim>\<open>float(text)\<close> does; values too large become infinite.
\<close>

definition round64 :: "bool \<Rightarrow> nat \<Rightarrow> nat \<Rightarrow> pyfloat" where
  "round64 neg num den =
     (if num = 0 then Finite neg 0 (- 1074)
      else
        (let u = max (floor_log2 num den - 52) (- 1074);
             m = (if 0 \<le> u then round_half_even num (den * 2 ^ nat u)
                  else round_half_even (num * 2 ^ nat (- u)) den);
             u' = (if m = 2 ^ 53 then u + 1 else u);
             m' = (if m = 2 ^ 53 then 2 ^ 52 else m)
         in if 971 < u' then Infinity neg else Finite neg m' u'))"

text \<open>\<^verbatim>\<open>int(f)\<close>: truncation towards zero; infinities and NaN raise.\<close>

definition float_to_int :: "pyfloat \<Rightarrow> error + int" where
  "float_to_int f =
     (case f of
        NaN \<Rightarrow> Inl ValueError
      | Infinity neg \<Rightarrow> Inl OverflowError
      | Finite neg m u \<Rightarrow>
          (let a = (if 0 \<le> u then int m * 2 ^ nat u else int m div 2 ^ nat (- u))
           in Inr (if neg then - a else a)))"

subsection \<open>\<^verbatim>\<open>float(text)\<close>\<close>

text \<open>White space that \<^verbatim>\<open>float\<close> strips from both ends of its argument.\<close>

definition float_space :: "char \<Rightarrow> bool" where
  "float_space c = (let n = code c in (9 \<le> n \<and> n \<le> 13) \<or> n = 32 \<or> n = 133 \<or> n = 160)"

definition nat_of_digits :: "string \<Rightarrow> nat" where
  "nat_of_digits ds = foldl (\<lambda>a c. 10 * a + (code c - 48)) 0 ds"

text \<open>
  The rest of a digit part whose first digit has been read: digits, each optionally
  preceded by one underscore. The result is the digits read and the remaining text.
\<close>

fun digit_run :: "string \<Rightarrow> string \<times> string" where
  "digit_run [] = ([], [])"
| "digit_run [c] = (if isdigit c then ([c], []) else ([], [c]))"
| "digit_run (c # d # cs) =
     (if isdigit c then (case digit_run (d # cs) of (ds, r) \<Rightarrow> (c # ds, r))
      else if c = CHR ''_'' \<and> isdigit d then (case digit_run cs of (ds, r) \<Rightarrow> (d # ds, r))
      else ([], c # d # cs))"

definition digit_part :: "string \<Rightarrow> (string \<times> string) option" where
  "digit_part s =
     (case s of
        [] \<Rightarrow> None
      | c # cs \<Rightarrow> if isdigit c then (case digit_run cs of (ds, r) \<Rightarrow> Some (c # ds, r)) else None)"

text \<open>
  A decimal numeral without sign: integer digits, fraction digits and exponent. At least
  one digit before or after the point is required, an exponent mark must be followed by
  digits, and the whole text must be consumed.
\<close>

definition parse_decimal :: "string \<Rightarrow> (string \<times> string \<times> int) option" where
  "parse_decimal s =
     (case (case digit_part s of Some (ds, r) \<Rightarrow> (ds, r) | None \<Rightarrow> ([], s)) of
        (ip, r1) \<Rightarrow>
     (case (case r1 of
              [] \<Rightarrow> ([], [])
            | c # cs \<Rightarrow>
                if c = CHR ''.''
                then (case digit_part cs of Some (ds, r) \<Rightarrow> (ds, r) | None \<Rightarrow> ([], cs))
                else ([], r1)) of
        (fp, r2) \<Rightarrow>
     if ip = [] \<and> fp = [] then None
     else
       (case r2 of
          [] \<Rightarrow> Some (ip, fp, 0)
        | c # cs \<Rightarrow>
            if c = CHR ''e'' \<or> c = CHR ''E'' then
              (case (case cs of
                       [] \<Rightarrow> (False, [])
                     | d # ds \<Rightarrow>
                         if d = CHR ''-'' then (True, ds)
                         else if d = CHR ''+'' then (False, ds)
                         else (False, cs)) of
                 (eneg, r3) \<Rightarrow>
                   (case digit_part r3 of
                      None \<Rightarrow> None
                    | Some (es, r4) \<Rightarrow>
                        if r4 = []
                        then Some (ip, fp, if eneg then - int (nat_of_digits es)
                                           else int (nat_of_digits es))
                        else None))
            else None)))"

text \<open>The decimal \<open>(-1)\<^bsup>neg\<^esup> * c * 10\<^bsup>s\<^esup>\<close> as a float.\<close>

definition decimal_to_float :: "bool \<Rightarrow> nat \<Rightarrow> int \<Rightarrow> pyfloat" where
  "decimal_to_float neg c s =
     (if 0 \<le> s then round64 neg (c * 10 ^ nat s) 1 else round64 neg c (10 ^ nat (- s)))"

definition py_float :: "string \<Rightarrow> error + pyfloat" where
  "py_float text =
     (let s = rev (dropWhile float_space (rev (dropWhile float_space text))) in
      case (case s of
              [] \<Rightarrow> (False, [])
            | c # cs \<Rightarrow>
                if c = CHR ''-'' then (True, cs)
                else if c = CHR ''+'' then (False, cs)
                else (False, s)) of
        (neg, body) \<Rightarrow>
          if lower body = ''inf'' \<or> lower body = ''infinity'' then Inr (Infinity neg)
          else if lower body = ''nan'' then Inr NaN
          else (case parse_decimal body of
                  None \<Rightarrow> Inl ValueError
                | Some (ip, fp, e) \<Rightarrow>
                    Inr (decimal_to_float neg (nat_of_digits (ip @ fp)) (e - int (length fp)))))"

subsection \<open>\<^verbatim>\<open>str\<close> of numbers\<close>

fun nat_digits :: "nat \<Rightarrow> string" where
  "nat_digits n =
     (if n < 10 then [char_of (48 + n)] else nat_digits (n div 10) @ [char_of (48 + n mod 10)])"

declare nat_digits.simps [simp del]

definition int_str :: "int \<Rightarrow> string" where
  "int_str i = (if i < 0 then CHR ''-'' # nat_digits (nat (- i)) else nat_digits (nat i))"

text \<open>For positive \<open>num\<close> and \<open>den\<close>, the \<open>e\<close> with \<open>10\<^bsup>e\<^esup> \<le> num / den < 10\<^bsup>e+1\<^esup>\<close>.\<close>

definition floor_log10 :: "nat \<Rightarrow> nat \<Rightarrow> int" where
  "floor_log10 num den =
     (if den \<le> num then int (length (nat_digits (num div den))) - 1
      else (let j = length (nat_digits (den div num)) in
            if den \<le> num * 10 ^ (j - 1) then - int (j - 1) else - int j))"

text \<open>
  \<^verbatim>\<open>repr\<close> of a float prints the shortest decimal that converts back to the same float and,
  among those, the one nearest to it. \<open>candidate m u e10 p\<close> looks for such a decimal with
  \<open>p\<close> significant digits for the positive float \<open>m * 2\<^bsup>u\<^esup>\<close>, whose decimal exponent is
  \<open>e10\<close>; the result is a coefficient and a power of ten.
\<close>

definition candidate :: "nat \<Rightarrow> int \<Rightarrow> int \<Rightarrow> nat \<Rightarrow> (nat \<times> int) option" where
  "candidate m u e10 p =
     (let num = (if 0 \<le> u then m * 2 ^ nat u else m);
          den = (if 0 \<le> u then 1 else 2 ^ nat (- u));
          s = e10 - int p + 1;
          lo = (if 0 \<le> s then num div (den * 10 ^ nat s) else (num * 10 ^ nat (- s)) div den);
          hi = lo + 1;
          lo_ok = (decimal_to_float False lo s = Finite False m u);
          hi_ok = (decimal_to_float False hi s = Finite False m u);
          lo_nearer = (if 0 \<le> s then 2 * num \<le> (2 * lo + 1) * 10 ^ nat s * den
                       else 2 * num * 10 ^ nat (- s) \<le> (2 * lo + 1) * den)
      in if lo_ok \<and> (lo_nearer \<or> \<not> hi_ok) then Some (lo, s)
         else if hi_ok then Some (hi, s)
         else None)"

fun first_candidate :: "nat \<Rightarrow> int \<Rightarrow> int \<Rightarrow> nat list \<Rightarrow> (nat \<times> int) option" where
  "first_candidate m u e10 [] = None"
| "first_candidate m u e10 (p # ps) =
     (case candidate m u e10 p of
        Some c \<Rightarrow> Some c
      | None \<Rightarrow> first_candidate m u e10 ps)"

definition strip_zeros :: "string \<Rightarrow> string" where
  "strip_zeros ds = rev (dropWhile (\<lambda>c. c = CHR ''0'') (rev ds))"

text \<open>
  The layout of \<^verbatim>\<open>repr\<close>: digits \<open>ds\<close> with the decimal point after the first \<open>decpt\<close> of
  them; scientific notation when \<open>decpt \<le> -4\<close> or \<open>16 < decpt\<close>.
\<close>

definition format_repr :: "string \<Rightarrow> int \<Rightarrow> string" where
  "format_repr ds decpt =
     (if decpt \<le> - 4 \<or> 16 < decpt then
        (let e = decpt - 1;
             es = nat_digits (nat \<bar>e\<bar>);
             es' = (if length es < 2 then CHR ''0'' # es else es)
         in take 1 ds @ (if 1 < length ds then CHR ''.'' # drop 1 ds else [])
            @ ''e'' @ (if e < 0 then ''-'' else ''+'') @ es')
      else if decpt \<le> 0 then ''0.'' @ replicate (nat (- decpt)) CHR ''0'' @ ds
      else if int (length ds) \<le> decpt
        then ds @ replicate (nat decpt - length ds) CHR ''0'' @ ''.0''
      else take (nat decpt) ds @ ''.'' @ drop (nat decpt) ds)"

definition float_repr :: "pyfloat \<Rightarrow> string" where
  "float_repr f =
     (case f of
        NaN \<Rightarrow> ''nan''
      | Infinity neg \<Rightarrow> (if neg then ''-inf'' else ''inf'')
      | Finite neg m u \<Rightarrow>
          (if neg then ''-'' else '''') @
          (if m = 0 then ''0.0''
           else
             (let e10 = (if 0 \<le> u then floor_log10 (m * 2 ^ nat u) 1
                         else floor_log10 m (2 ^ nat (- u)))
              in case first_candidate m u e10 [1..<18] of
                   None \<Rightarrow> ''''
                 | Some (c, s) \<Rightarrow>
                     format_repr (strip_zeros (nat_digits c))
                       (s + int (length (nat_digits c))))))"

section \<open>Values of \<^verbatim>\<open>json.loads\<close>\<close>

text \<open>
  A decoded JSON document is \<^verbatim>\<open>None\<close>, a \<^verbatim>\<open>bool\<close>, an \<^verbatim>\<open>int\<close>, a \<^verbatim>\<open>float\<close>, a \<^verbatim>\<open>str\<close>, a
  \<^verbatim>\<open>list\<close> or a \<^verbatim>\<open>dict\<close> with text keys. A dictionary is kept as the list of its items in
  insertion order, with distinct keys when it is built by \<open>dict_set\<close>.
\<close>

datatype pyval =
    PNone
  | PBool bool
  | PInt int
  | PFloat pyfloat
  | PStr string
  | PList "pyval list"
  | PDict "(string \<times> pyval) list"

text \<open>\<^verbatim>\<open>d[k] = v\<close>: an existing key keeps its position.\<close>

fun dict_set :: "string \<Rightarrow> pyval \<Rightarrow> (string \<times> pyval) list \<Rightarrow> (string \<times> pyval) list" where
  "dict_set k v [] = [(k, v)]"
| "dict_set k v ((k', v') # kvs) =
     (if k' = k then (k, v) # kvs else (k', v') # dict_set k v kvs)"

text \<open>\<^verbatim>\<open>d.get(k, default)\<close>.\<close>

definition dict_get :: "(string \<times> pyval) list \<Rightarrow> string \<Rightarrow> pyval \<Rightarrow> pyval" where
  "dict_get kvs k dflt = (case map_of kvs k of Some v \<Rightarrow> v | None \<Rightarrow> dflt)"

text \<open>The truth value of an object in a condition.\<close>

fun truthy :: "pyval \<Rightarrow> bool" where
  "truthy PNone = False"
| "truthy (PBool b) = b"
| "truthy (PInt i) = (i \<noteq> 0)"
| "truthy (PFloat f) = (case f of Finite neg m u \<Rightarrow> m \<noteq> 0 | Infinity neg \<Rightarrow> True | NaN \<Rightarrow> True)"
| "truthy (PStr s) = (s \<noteq> [])"
| "truthy (PList xs) = (xs \<noteq> [])"
| "truthy (PDict kvs) = (kvs \<noteq> [])"

subsection \<open>\<^verbatim>\<open>str\<close> and \<^verbatim>\<open>repr\<close>\<close>

definition hex_digit :: "nat \<Rightarrow> char" where
  "hex_digit n = (if n < 10 then char_of (48 + n) else char_of (87 + n))"

text \<open>Characters that \<^verbatim>\<open>repr\<close> of a text prints as they are.\<close>

definition isprintable :: "char \<Rightarrow> bool" where
  "isprintable c = (let n = code c in (32 \<le> n \<and> n < 127) \<or> (161 \<le> n \<and> n \<noteq> 173))"

definition repr_char :: "char \<Rightarrow> char \<Rightarrow> string" where
  "repr_char quote c =
     (if c = quote \<or> c = CHR 0x5C then [CHR 0x5C, c]
      else if c = CHR 0x09 then [CHR 0x5C, CHR ''t'']
      else if c = CHR 0x0A then [CHR 0x5C, CHR ''n'']
      else if c = CHR 0x0D then [CHR 0x5C, CHR ''r'']
      else if isprintable c then [c]
      else [CHR 0x5C, CHR ''x'', hex_digit (code c div 16), hex_digit (code c mod 16)])"

text \<open>
  \<^verbatim>\<open>repr\<close> of a text: single quotes, unless the text has a single quote and no double
  quote.
\<close>

definition repr_str :: "string \<Rightarrow> string" where
  "repr_str s =
     (let quote = (if List.member s CHR 0x27 \<and> \<not> List.member s CHR 0x22
                   then CHR 0x22 else CHR 0x27)
      in [quote] @ concat (map (repr_char quote) s) @ [quote])"

fun join :: "string \<Rightarrow> string list \<Rightarrow> string" where
  "join sep [] = []"
| "join sep [x] = x"
| "join sep (x # y # ys) = x @ sep @ join sep (y # ys)"

fun py_repr :: "pyval \<Rightarrow> string" where
  "py_repr PNone = ''None''"
| "py_repr (PBool b) = (if b then ''True'' else ''False'')"
| "py_repr (PInt i) = int_str i"
| "py_repr (PFloat f) = float_repr f"
| "py_repr (PStr s) = repr_str s"
| "py_repr (PList xs) = ''['' @ join '', '' (map py_repr xs) @ '']''"
| "py_repr (PDict kvs) =
     ''{'' @ join '', '' (map (\<lambda>kv. repr_str (fst kv) @ '': '' @ py_repr (snd kv)) kvs) @ ''}''"

definition py_str :: "pyval \<Rightarrow> string" where
  "py_str v = (case v of PStr s \<Rightarrow> s | _ \<Rightarrow> py_repr v)"

section \<open>\<^verbatim>\<open>json.loads\<close>\<close>

text \<open>
  The decoder is modelled in two passes over the same grammar as the library's scanner:
  the text is cut into tokens, and the tokens are read by a machine with a stack of the
  containers that are open. Two values never follow each other without a comma or a
  colon in a valid document, so cutting the text into tokens first accepts the same texts
  and yields the same values. Every failure of the library is a \<^verbatim>\<open>JSONDecodeError\<close>.
\<close>

datatype token =
    TLBrace | TRBrace | TLBracket | TRBracket | TComma | TColon
  | TString string
  | TValue pyval

definition json_space :: "char \<Rightarrow> bool" where
  "json_space c = (c = CHR '' '' \<or> c = CHR 0x09 \<or> c = CHR 0x0A \<or> c = CHR 0x0D)"

definition punctuation :: "char \<Rightarrow> token option" where
  "punctuation c =
     (if c = CHR ''{'' then Some TLBrace
      else if c = CHR ''}'' then Some TRBrace
      else if c = CHR ''['' then Some TLBracket
      else if c = CHR '']'' then Some TRBracket
      else if c = CHR '','' then Some TComma
      else if c = CHR '':'' then Some TColon
      else None)"

definition hex_value :: "char \<Rightarrow> nat option" where
  "hex_value c =
     (let n = code c in
      if 48 \<le> n \<and> n \<le> 57 then Some (n - 48)
      else if 97 \<le> n \<and> n \<le> 102 then Some (n - 87)
      else if 65 \<le> n \<and> n \<le> 70 then Some (n - 55)
      else None)"

text \<open>The four hexadecimal digits of a \<^verbatim>\<open>\u\<close> escape.\<close>

fun hex4 :: "string \<Rightarrow> nat option" where
  "hex4 [a, b, c, d] =
     (case (hex_value a, hex_value b, hex_value c, hex_value d) of
        (Some x, Some y, Some z, Some w) \<Rightarrow> Some (((x * 16 + y) * 16 + z) * 16 + w)
      | _ \<Rightarrow> None)"
| "hex4 s = None"

definition escape_char :: "char \<Rightarrow> char option" where
  "escape_char e =
     (if e = CHR 0x22 then Some (CHR 0x22)
      else if e = CHR 0x5C then Some (CHR 0x5C)
      else if e = CHR ''/'' then Some (CHR ''/'')
      else if e = CHR ''b'' then Some (CHR 0x08)
      else if e = CHR ''f'' then Some (CHR 0x0C)
      else if e = CHR ''n'' then Some (CHR 0x0A)
      else if e = CHR ''r'' then Some (CHR 0x0D)
      else if e = CHR ''t'' then Some (CHR 0x09)
      else None)"

text \<open>
  The body of a string literal, after its opening quote: the decoded text and the number
  of characters read, the closing quote included. Control characters are refused, as the
  strict decoder does. A \<^verbatim>\<open>\u\<close> escape is decoded when it denotes a character of the modelled
  range; texts with escapes beyond U+00FF are outside the model and are refused here.
\<close>

fun scan_string :: "string \<Rightarrow> (string \<times> nat) option" where
  "scan_string [] = None"
| "scan_string (c # cs) =
     (if c = CHR 0x22 then Some ([], 1)
      else if c = CHR 0x5C then
        (case cs of
           [] \<Rightarrow> None
         | e # cs' \<Rightarrow>
             if e = CHR ''u'' then
               (case hex4 (take 4 cs') of
                  None \<Rightarrow> None
                | Some cp \<Rightarrow>
                    if cp < 256 then
                      (case scan_string (drop 4 cs') of
                         None \<Rightarrow> None
                       | Some (s, n) \<Rightarrow> Some (char_of cp # s, n + 6))
                    else None)
             else
               (case escape_char e of
                  None \<Rightarrow> None
                | Some x \<Rightarrow>
                    (case scan_string cs' of
                       None \<Rightarrow> None
                     | Some (s, n) \<Rightarrow> Some (x # s, n + 2))))
      else if code c < 32 then None
      else
        (case scan_string cs of
           None \<Rightarrow> None
         | Some (s, n) \<Rightarrow> Some (c # s, n + 1)))"

text \<open>
  A number: \<^verbatim>\<open>-?(0|[1-9]\d*)(\.\d+)?([eE][-+]?\d+)?\<close>. Without fraction and exponent it is an
  \<^verbatim>\<open>int\<close>, otherwise the \<^verbatim>\<open>float\<close> of its text.
\<close>

definition json_number :: "string \<Rightarrow> pyval option" where
  "json_number w =
     (let neg = (w \<noteq> [] \<and> hd w = CHR ''-'');
          r0 = (if neg then tl w else w);
          ip = takeWhile isdigit r0;
          r1 = dropWhile isdigit r0;
          has_frac = (r1 \<noteq> [] \<and> hd r1 = CHR ''.'');
          fp = (if has_frac then takeWhile isdigit (tl r1) else []);
          r2 = (if has_frac then dropWhile isdigit (tl r1) else r1);
          has_exp = (r2 \<noteq> [] \<and> (hd r2 = CHR ''e'' \<or> hd r2 = CHR ''E''));
          r3 = (if has_exp then tl r2 else r2);
          r4 = (if has_exp \<and> r3 \<noteq> [] \<and> (hd r3 = CHR ''-'' \<or> hd r3 = CHR ''+'')
                then tl r3 else r3);
          ep = (if has_exp then takeWhile isdigit r4 else []);
          r5 = (if has_exp then dropWhile isdigit r4 else r4)
      in if ip = [] \<or> (hd ip = CHR ''0'' \<and> length ip \<noteq> 1) then None
         else if has_frac \<and> fp = [] then None
         else if has_exp \<and> ep = [] then None
         else if r5 \<noteq> [] then None
         else if has_frac \<or> has_exp then
           (case py_float w of Inl e \<Rightarrow> None | Inr f \<Rightarrow> Some (PFloat f))
         else Some (PInt (if neg then - int (nat_of_digits ip) else int (nat_of_digits ip))))"

text \<open>A value that is written without quotes or brackets: a literal or a number.\<close>

definition bare_value :: "string \<Rightarrow> pyval option" where
  "bare_value w =
     (if w = ''null'' then Some PNone
      else if w = ''true'' then Some (PBool True)
      else if w = ''false'' then Some (PBool False)
      else if w = ''NaN'' then Some (PFloat NaN)
      else if w = ''Infinity'' then Some (PFloat (Infinity False))
      else if w = ''-Infinity'' then Some (PFloat (Infinity True))
      else json_number w)"

definition bare_char :: "char \<Rightarrow> bool" where
  "bare_char c = (\<not> json_space c \<and> punctuation c = None \<and> c \<noteq> CHR 0x22)"

text \<open>
  The tokens of a text. The first argument counts the characters that the token before
  has already taken.
\<close>

fun tokens :: "nat \<Rightarrow> string \<Rightarrow> token list option" where
  "tokens skip [] = (if skip = 0 then Some [] else None)"
| "tokens skip (c # cs) =
     (if 0 < skip then tokens (skip - 1) cs
      else if json_space c then tokens 0 cs
      else
        (case punctuation c of
           Some t \<Rightarrow> map_option ((#) t) (tokens 0 cs)
         | None \<Rightarrow>
             if c = CHR 0x22 then
               (case scan_string cs of
                  None \<Rightarrow> None
                | Some (s, n) \<Rightarrow> map_option ((#) (TString s)) (tokens n cs))
             else
               (case bare_value (takeWhile bare_char (c # cs)) of
                  None \<Rightarrow> None
                | Some v \<Rightarrow>
                    map_option ((#) (TValue v))
                      (tokens (length (takeWhile bare_char (c # cs)) - 1) cs))))"

text \<open>
  The containers that are open: an array with its elements so far, or an object with its
  items so far and the key whose value is being read.
\<close>

datatype frame = FArray "pyval list" | FObject "(string \<times> pyval) list" string

text \<open>What the decoder expects next.\<close>

datatype expect =
    Value
  | FirstElement
  | FirstKey
  | Key
  | Colon
  | Next
  | Done pyval

text \<open>A complete value goes to the innermost open container, or is the document.\<close>

fun put_value :: "pyval \<Rightarrow> frame list \<Rightarrow> expect \<times> frame list" where
  "put_value v [] = (Done v, [])"
| "put_value v (FArray xs # st) = (Next, FArray (xs @ [v]) # st)"
| "put_value v (FObject kvs k # st) = (Next, FObject (dict_set k v kvs) k # st)"

fun step :: "expect \<times> frame list \<Rightarrow> token \<Rightarrow> (expect \<times> frame list) option" where
  "step (Done v, st) t = None"
| "step (Colon, st) t = (if t = TColon then Some (Value, st) else None)"
| "step (Next, st) t =
     (case st of
        [] \<Rightarrow> None
      | FArray xs # st' \<Rightarrow>
          if t = TComma then Some (Value, st)
          else if t = TRBracket then Some (put_value (PList xs) st')
          else None
      | FObject kvs k # st' \<Rightarrow>
          if t = TComma then Some (Key, st)
          else if t = TRBrace then Some (put_value (PDict kvs) st')
          else None)"
| "step (Key, st) t =
     (case (t, st) of
        (TString k, FObject kvs k' # st') \<Rightarrow> Some (Colon, FObject kvs k # st')
      | _ \<Rightarrow> None)"
| "step (FirstKey, st) t =
     (case (t, st) of
        (TString k, FObject kvs k' # st') \<Rightarrow> Some (Colon, FObject kvs k # st')
      | (TRBrace, FObject kvs k' # st') \<Rightarrow> Some (put_value (PDict kvs) st')
      | _ \<Rightarrow> None)"
| "step (FirstElement, st) t =
     (case t of
        TValue v \<Rightarrow> Some (put_value v st)
      | TString s \<Rightarrow> Some (put_value (PStr s) st)
      | TLBracket \<Rightarrow> Some (FirstElement, FArray [] # st)
      | TLBrace \<Rightarrow> Some (FirstKey, FObject [] [] # st)
      | TRBracket \<Rightarrow>
          (case st of FArray xs # st' \<Rightarrow> Some (put_value (PList xs) st') | _ \<Rightarrow> None)
      | _ \<Rightarrow> None)"
| "step (Value, st) t =
     (case t of
        TValue v \<Rightarrow> Some (put_value v st)
      | TString s \<Rightarrow> Some (put_value (PStr s) st)
      | TLBracket \<Rightarrow> Some (FirstElement, FArray [] # st)
      | TLBrace \<Rightarrow> Some (FirstKey, FObject [] [] # st)
      | _ \<Rightarrow> None)"

fun run :: "expect \<times> frame list \<Rightarrow> token list \<Rightarrow> (expect \<times> frame list) option" where
  "run s [] = Some s"
| "run s (t # ts) = (case step s t of None \<Rightarrow> None | Some s' \<Rightarrow> run s' ts)"

definition json_loads :: "string \<Rightarrow> error + pyval" where
  "json_loads text =
     (case tokens 0 text of
        None \<Rightarrow> Inl JSONDecodeError
      | Some ts \<Rightarrow>
          (case run (Value, []) ts of
             Some (Done v, []) \<Rightarrow> Inr v
           | _ \<Rightarrow> Inl JSONDecodeError))"

section \<open>Response normalizer\<close>

text \<open>\<^verbatim>\<open>s.split(sep)\<close> for a separator of several characters; \<open>skip\<close> as in \<open>tokens\<close>.\<close>

fun split_aux :: "string \<Rightarrow> nat \<Rightarrow> string \<Rightarrow> string \<Rightarrow> string list" where
  "split_aux sep skip cur [] = [rev cur]"
| "split_aux sep skip cur (c # cs) =
     (if 0 < skip then split_aux sep (skip - 1) cur cs
      else if startswith (c # cs) sep then rev cur # split_aux sep (length sep - 1) [] cs
      else split_aux sep 0 (c # cur) cs)"

definition split_str :: "string \<Rightarrow> string \<Rightarrow> string list" where
  "split_str sep s = split_aux sep 0 [] s"

text \<open>\<^verbatim>\<open>xs[i]\<close> for an index that is not negative.\<close>

definition index :: "'a list \<Rightarrow> nat \<Rightarrow> error + 'a" where
  "index xs i = (if i < length xs then Inr (xs ! i) else Inl IndexError)"

text \<open>\<^verbatim>\<open>s.find(c)\<close> and \<^verbatim>\<open>s.rfind(c)\<close> for one character: \<open>-1\<close> when it does not occur.\<close>

definition find_char :: "char \<Rightarrow> string \<Rightarrow> int" where
  "find_char c s = (if List.member s c then int (length (takeWhile (\<lambda>x. x \<noteq> c) s)) else - 1)"

definition rfind_char :: "char \<Rightarrow> string \<Rightarrow> int" where
  "rfind_char c s =
     (if List.member s c
      then int (length s) - 1 - int (length (takeWhile (\<lambda>x. x \<noteq> c) (rev s)))
      else - 1)"

text \<open>\<^verbatim>\<open>s[i:j]\<close> for \<open>0 \<le> i\<close> and \<open>0 \<le> j\<close>.\<close>

definition slice :: "string \<Rightarrow> int \<Rightarrow> int \<Rightarrow> string" where
  "slice s i j = drop (nat i) (take (nat j) s)"

text \<open>\<^verbatim>\<open>s.replace("'", '"')\<close>.\<close>

definition replace_quotes :: "string \<Rightarrow> string" where
  "replace_quotes s = map (\<lambda>c. if c = CHR 0x27 then CHR 0x22 else c) s"

text \<open>
  \<^verbatim>\<open>re.sub(r',(\s*[}\]])', r'\1', s)\<close>: a comma is removed when white space and a closing
  brace or bracket follow it. A match holds no second comma, so each comma is decided on
  its own.
\<close>

fun remove_trailing_commas :: "string \<Rightarrow> string" where
  "remove_trailing_commas [] = []"
| "remove_trailing_commas (c # cs) =
     (if c = CHR '','' \<and>
         (case dropWhile isspace cs of
            [] \<Rightarrow> False
          | d # _ \<Rightarrow> d = CHR ''}'' \<or> d = CHR '']'')
      then remove_trailing_commas cs
      else c # remove_trailing_commas cs)"

text \<open>The candidate texts of the four strategies, on the trimmed text.\<close>

definition whole_candidate :: "string \<Rightarrow> string" where
  "whole_candidate text = strip text"

definition fenced_candidate :: "string \<Rightarrow> error + string" where
  "fenced_candidate text =
     (case index (split_str ''```'' (strip text)) 1 of
        Inl e \<Rightarrow> Inl e
      | Inr json_text \<Rightarrow>
          Inr (strip (if startswith json_text ''json'' then drop 4 json_text else json_text)))"

definition has_braces :: "string \<Rightarrow> bool" where
  "has_braces text =
     (let start = find_char CHR ''{'' (strip text); stop = rfind_char CHR ''}'' (strip text) + 1
      in start \<noteq> - 1 \<and> start < stop)"

definition braces_candidate :: "string \<Rightarrow> string" where
  "braces_candidate text =
     (let start = find_char CHR ''{'' (strip text); stop = rfind_char CHR ''}'' (strip text) + 1
      in slice (strip text) start stop)"

definition repaired_candidate :: "string \<Rightarrow> string" where
  "repaired_candidate text = remove_trailing_commas (replace_quotes (braces_candidate text))"

text \<open>
  \<^verbatim>\<open>_extract_json_from_response\<close>. Each \<^verbatim>\<open>try\<close> returns what \<^verbatim>\<open>json.loads\<close> returns, whatever its
  type; the handlers catch \<^verbatim>\<open>JSONDecodeError\<close> (and \<^verbatim>\<open>IndexError\<close> in the second strategy), which
  are the only exceptions of the model.
\<close>

definition extract_json_from_response :: "string \<Rightarrow> pyval" where
  "extract_json_from_response text =
     (if text = [] then PDict []
      else
        (case json_loads (whole_candidate text) of
           Inr v \<Rightarrow> v
         | Inl e1 \<Rightarrow>
        (case (if contains (strip text) ''```''
               then (case fenced_candidate text of
                       Inl e \<Rightarrow> Inl e
                     | Inr json_text \<Rightarrow> json_loads json_text)
               else Inl JSONDecodeError) of
           Inr v \<Rightarrow> v
         | Inl e2 \<Rightarrow>
        (case (if has_braces text then json_loads (braces_candidate text)
               else Inl JSONDecodeError) of
           Inr v \<Rightarrow> v
         | Inl e3 \<Rightarrow>
        (case (if has_braces text then json_loads (repaired_candidate text)
               else Inl JSONDecodeError) of
           Inr v \<Rightarrow> v
         | Inl e4 \<Rightarrow> PDict [])))))"

section \<open>Field coercers\<close>

text \<open>\<^verbatim>\<open>_extract_list\<close>.\<close>

definition extract_list :: "pyval \<Rightarrow> string list" where
  "extract_list data =
     (case data of
        PList items \<Rightarrow>
          map (\<lambda>item. strip (py_str item))
            (filter (\<lambda>item. truthy item \<and> strip (py_str item) \<noteq> []) items)
      | PStr s \<Rightarrow>
          map strip (filter (\<lambda>item. strip item \<noteq> []) (split_char CHR '','' s))
      | _ \<Rightarrow> [])"

text \<open>
  The list coercion as the specification words it, for comparison with \<open>extract_list\<close>: the
  items of a sequence converted to trimmed text with the empty texts dropped, a text split
  on commas and trimmed, the empty sequence for anything else.
\<close>

definition list_coercion_spec :: "pyval \<Rightarrow> string list" where
  "list_coercion_spec data =
     (case data of
        PList items \<Rightarrow> filter (\<lambda>x. x \<noteq> []) (map (\<lambda>item. strip (py_str item)) items)
      | PStr s \<Rightarrow> filter (\<lambda>x. x \<noteq> []) (map strip (split_char CHR '','' s))
      | _ \<Rightarrow> [])"

text \<open>
  \<^verbatim>\<open>_extract_score\<close>: \<^verbatim>\<open>max(0, min(100, int(float(str(score)))))\<close> inside a \<^verbatim>\<open>try\<close> whose
  handler catches \<^verbatim>\<open>ValueError\<close> and \<^verbatim>\<open>TypeError\<close> only.
\<close>

definition extract_score :: "pyval \<Rightarrow> error + int" where
  "extract_score score =
     (case (case py_float (py_str score) of
              Inl e \<Rightarrow> Inl e
            | Inr f \<Rightarrow> float_to_int f) of
        Inr i \<Rightarrow> Inr (max 0 (min 100 i))
      | Inl e \<Rightarrow> if e = ValueError \<or> e = TypeError then Inr 0 else Inl e)"

section \<open>Fallbacks for skills, summary and cover letter\<close>

definition common_skills :: "string list" where
  "common_skills =
     [''Python'', ''JavaScript'', ''Java'', ''C++'', ''SQL'', ''AWS'', ''Azure'', ''Docker'',
      ''Kubernetes'', ''React'', ''Node.js'', ''Machine Learning'', ''Data Analysis'',
      ''Project Management'', ''Agile'', ''Git'', ''Linux'', ''Communication'', ''Leadership'']"

definition placeholder_skills :: "string list" where
  "placeholder_skills = [''Technical Skills'', ''Problem Solving'', ''Team Collaboration'']"

definition found_skills :: "string \<Rightarrow> string list" where
  "found_skills resume_text =
     (let resume_upper = upper resume_text
      in filter (\<lambda>skill. contains resume_upper (upper skill)) common_skills)"

definition extract_skills_fallback :: "string \<Rightarrow> string list" where
  "extract_skills_fallback resume_text =
     (if found_skills resume_text \<noteq> [] then take 8 (found_skills resume_text)
      else placeholder_skills)"

definition generate_fallback_summary :: "string \<Rightarrow> string \<Rightarrow> string" where
  "generate_fallback_summary resume_text job_desc =
     ''Experienced professional with demonstrated expertise in technical domains. '' @
     ''Proven ability to deliver results and collaborate effectively with cross-functional teams. '' @
     ''Seeking to contribute skills and drive innovation in a challenging environment.''"

definition generate_fallback_cover_letter :: "string \<Rightarrow> string \<Rightarrow> string" where
  "generate_fallback_cover_letter name job_desc =
     ''Dear Hiring Manager,'' @ [CHR 0x0A, CHR 0x0A] @
     ''I am writing to express my strong interest in this position. '' @
     ''With my background in technology and proven track record of success, '' @
     ''I am confident I can make valuable contributions to your team. '' @
     ''I look forward to discussing how my skills align with your needs.'' @
     [CHR 0x0A, CHR 0x0A] @
     ''Best regards,'' @ [CHR 0x0A] @ (if name \<noteq> [] then name else ''Applicant'')"

section \<open>Personal information\<close>

text \<open>
  The two regular expressions of \<^verbatim>\<open>_extract_personal_info\<close> are matched as the \<^verbatim>\<open>re\<close> module
  matches them, by backtracking: a matcher maps the character before the current position
  and the rest of the text to the lengths it can consume, in the order in which the
  module tries them. \<^verbatim>\<open>re.search\<close> takes the first length at the first position that has
  one.
\<close>

type_synonym matcher = "char option \<Rightarrow> string \<Rightarrow> nat list"

definition char_before :: "char option \<Rightarrow> string \<Rightarrow> nat \<Rightarrow> char option" where
  "char_before prev s n = (if n = 0 then prev else Some (s ! (n - 1)))"

definition seq :: "matcher \<Rightarrow> matcher \<Rightarrow> matcher" where
  "seq m1 m2 prev s =
     concat (map (\<lambda>a. map (\<lambda>b. a + b) (m2 (char_before prev s a) (drop a s))) (m1 prev s))"

text \<open>A greedy optional part: first with it, then without.\<close>

definition opt :: "matcher \<Rightarrow> matcher" where
  "opt m prev s = m prev s @ [0]"

definition chr :: "(char \<Rightarrow> bool) \<Rightarrow> matcher" where
  "chr P prev s = (case s of [] \<Rightarrow> [] | c # _ \<Rightarrow> if P c then [1] else [])"

text \<open>A greedy repetition of a character class, at least \<open>lo\<close> and at most \<open>hi\<close> times.\<close>

definition repeat :: "(char \<Rightarrow> bool) \<Rightarrow> nat \<Rightarrow> nat option \<Rightarrow> matcher" where
  "repeat P lo hi prev s =
     (let n = length (takeWhile P s);
          top = (case hi of None \<Rightarrow> n | Some h \<Rightarrow> min n h)
      in rev [lo..<Suc top])"

text \<open>\<^verbatim>\<open>\b\<close>: exactly one of the two neighbours is a word character.\<close>

definition word_boundary :: matcher where
  "word_boundary prev s =
     (if (case prev of None \<Rightarrow> False | Some p \<Rightarrow> isword p) \<noteq>
         (case s of [] \<Rightarrow> False | c # _ \<Rightarrow> isword c)
      then [0] else [])"

fun search :: "matcher \<Rightarrow> char option \<Rightarrow> string \<Rightarrow> string option" where
  "search m prev [] = (case m prev [] of [] \<Rightarrow> None | n # _ \<Rightarrow> Some [])"
| "search m prev (c # cs) =
     (case m prev (c # cs) of
        n # _ \<Rightarrow> Some (take n (c # cs))
      | [] \<Rightarrow> search m (Some c) cs)"

definition ascii_alnum :: "char \<Rightarrow> bool" where
  "ascii_alnum c = (let n = code c in
     (48 \<le> n \<and> n \<le> 57) \<or> (65 \<le> n \<and> n \<le> 90) \<or> (97 \<le> n \<and> n \<le> 122))"

definition ascii_alpha :: "char \<Rightarrow> bool" where
  "ascii_alpha c = (let n = code c in (65 \<le> n \<and> n \<le> 90) \<or> (97 \<le> n \<and> n \<le> 122))"

text \<open>\<^verbatim>\<open>\b[A-Za-z0-9._%+-]+@[A-Za-z0-9.-]+\.[A-Z|a-z]{2,}\b\<close>\<close>

definition email_pattern :: matcher where
  "email_pattern =
     seq word_boundary
    (seq (repeat (\<lambda>c. ascii_alnum c \<or> List.member ''._%+-'' c) 1 None)
    (seq (chr (\<lambda>c. c = CHR ''@''))
    (seq (repeat (\<lambda>c. ascii_alnum c \<or> List.member ''.-'' c) 1 None)
    (seq (chr (\<lambda>c. c = CHR ''.''))
    (seq (repeat (\<lambda>c. ascii_alpha c \<or> c = CHR ''|'') 2 None)
         word_boundary)))))"

definition separator :: "char \<Rightarrow> bool" where
  "separator c = (c = CHR ''-'' \<or> c = CHR ''.'' \<or> isspace c)"

text \<open>\<^verbatim>\<open>(\+\d{1,3}[-.\s]?)?\(?\d{3}\)?[-.\s]?\d{3}[-.\s]?\d{4}\<close>\<close>

definition phone_pattern :: matcher where
  "phone_pattern =
     seq (opt (seq (chr (\<lambda>c. c = CHR ''+''))
              (seq (repeat isdigit 1 (Some 3)) (opt (chr separator)))))
    (seq (opt (chr (\<lambda>c. c = CHR ''('')))
    (seq (repeat isdigit 3 (Some 3))
    (seq (opt (chr (\<lambda>c. c = CHR '')'')))
    (seq (opt (chr separator))
    (seq (repeat isdigit 3 (Some 3))
    (seq (opt (chr separator))
         (repeat isdigit 4 (Some 4))))))))"

text \<open>\<^verbatim>\<open>s.split()\<close>: the maximal runs of characters that are not white space.\<close>

fun split_whitespace :: "string \<Rightarrow> string \<Rightarrow> string list" where
  "split_whitespace cur [] = (if cur = [] then [] else [rev cur])"
| "split_whitespace cur (c # cs) =
     (if isspace c then (if cur = [] then split_whitespace [] cs
                         else rev cur # split_whitespace [] cs)
      else split_whitespace (c # cur) cs)"

record personal_info =
  name :: string
  email :: string
  phone :: string

text \<open>The test of one of the first five lines, already stripped, for being the name.\<close>

definition is_name_line :: "string \<Rightarrow> bool" where
  "is_name_line line =
     (2 \<le> length (split_whitespace [] line) \<and> length (split_whitespace [] line) \<le> 4 \<and>
      isupper (hd line) \<and>
      \<not> list_ex (contains line) [''@'', ''http'', ''/'', [CHR 0x5C]])"

fun find_name :: "string list \<Rightarrow> string" where
  "find_name [] = []"
| "find_name (line # lines) =
     (if is_name_line (strip line) then strip line else find_name lines)"

definition extract_personal_info :: "string \<Rightarrow> personal_info" where
  "extract_personal_info resume_text =
     \<lparr>name = find_name (take 5 (split_char CHR 0x0A resume_text)),
      email = (case search email_pattern None resume_text of Some m \<Rightarrow> m | None \<Rightarrow> []),
      phone = (case search phone_pattern None resume_text of Some m \<Rightarrow> m | None \<Rightarrow> [])\<rparr>"

section \<open>Result builder\<close>

record analysis_result =
  personal_info :: personal_info
  summary :: string
  skills :: "string list"
  missing_keywords :: "string list"
  match_score :: int
  experience :: "experience_entry list"
  education :: "education_entry list"
  cover_letter :: string

definition default_result :: "personal_info \<Rightarrow> analysis_result" where
  "default_result info =
     \<lparr>personal_info = info, summary = '''', skills = [], missing_keywords = [],
      match_score = 0, experience = [], education = [], cover_letter = ''''\<rparr>"

text \<open>
  The block under \<^verbatim>\<open>if parsed:\<close>. A value without a \<^verbatim>\<open>get\<close> method raises
  \<^verbatim>\<open>AttributeError\<close> at the first lookup; the score coercion is the third assignment and
  the only one that can raise.
\<close>

definition from_parsed :: "pyval \<Rightarrow> analysis_result \<Rightarrow> error + analysis_result" where
  "from_parsed parsed result =
     (case parsed of
        PDict kvs \<Rightarrow>
          (case extract_score (dict_get kvs ''match_score'' (PInt 0)) of
             Inl e \<Rightarrow> Inl e
           | Inr score \<Rightarrow>
               Inr (result
                 \<lparr>skills := extract_list (dict_get kvs ''skills'' (PList [])),
                  missing_keywords := extract_list (dict_get kvs ''missing_keywords'' (PList [])),
                  match_score := score,
                  summary := strip (py_str (dict_get kvs ''summary'' (PStr ''''))),
                  cover_letter := strip (py_str (dict_get kvs ''cover_letter'' (PStr '''')))\<rparr>))
      | _ \<Rightarrow> Inl AttributeError)"

text \<open>The rest of \<^verbatim>\<open>_build_result\<close>: the fallbacks and the two extractors.\<close>

definition apply_fallbacks ::
  "analysis_result \<Rightarrow> personal_info \<Rightarrow> string \<Rightarrow> string \<Rightarrow> analysis_result" where
  "apply_fallbacks result info resume_text job_desc =
     (let result = (if skills result = [] \<or> length (skills result) < 3
                    then result\<lparr>skills := extract_skills_fallback resume_text\<rparr> else result);
          result = (if summary result = []
                    then result\<lparr>summary := generate_fallback_summary resume_text job_desc\<rparr>
                    else result);
          result = (if cover_letter result = []
                    then result\<lparr>cover_letter :=
                           generate_fallback_cover_letter (name info) job_desc\<rparr>
                    else result)
      in result\<lparr>experience := extract_experience resume_text,
                education := extract_education resume_text\<rparr>)"

definition build_result ::
  "pyval \<Rightarrow> personal_info \<Rightarrow> string \<Rightarrow> string \<Rightarrow> error + analysis_result" where
  "build_result parsed info resume_text job_desc =
     (case (if truthy parsed then from_parsed parsed (default_result info)
            else Inr (default_result info)) of
        Inl e \<Rightarrow> Inl e
      | Inr result \<Rightarrow> Inr (apply_fallbacks result info resume_text job_desc))"

section \<open>Cache key\<close>

text \<open>
  \<^verbatim>\<open>hashlib.md5(combined.encode()).hexdigest()\<close>: the UTF-8 encoding of the text, and the MD5
  digest of RFC 1321 on 32-bit words, printed in hexadecimal.
\<close>

definition utf8_char :: "char \<Rightarrow> 8 word list" where
  "utf8_char c =
     (if code c < 128 then [of_nat (code c)]
      else [of_nat (192 + code c div 64), of_nat (128 + code c mod 64)])"

definition encode :: "string \<Rightarrow> 8 word list" where
  "encode s = concat (map utf8_char s)"

text \<open>The inverse of \<open>encode\<close>: the encoding loses nothing.\<close>

fun decode :: "8 word list \<Rightarrow> string" where
  "decode [] = []"
| "decode [b] = [char_of (unat b)]"
| "decode (b # b2 # bs) =
     (if unat b < 128 then char_of (unat b) # decode (b2 # bs)
      else char_of ((unat b - 192) * 64 + (unat b2 - 128)) # decode bs)"

definition md5_K :: "32 word list" where
  "md5_K =
     [0xd76aa478, 0xe8c7b756, 0x242070db, 0xc1bdceee, 0xf57c0faf, 0x4787c62a,
      0xa8304613, 0xfd469501, 0x698098d8, 0x8b44f7af, 0xffff5bb1, 0x895cd7be,
      0x6b901122, 0xfd987193, 0xa679438e, 0x49b40821, 0xf61e2562, 0xc040b340,
      0x265e5a51, 0xe9b6c7aa, 0xd62f105d, 0x02441453, 0xd8a1e681, 0xe7d3fbc8,
      0x21e1cde6, 0xc33707d6, 0xf4d50d87, 0x455a14ed, 0xa9e3e905, 0xfcefa3f8,
      0x676f02d9, 0x8d2a4c8a, 0xfffa3942, 0x8771f681, 0x6d9d6122, 0xfde5380c,
      0xa4beea44, 0x4bdecfa9, 0xf6bb4b60, 0xbebfbc70, 0x289b7ec6, 0xeaa127fa,
      0xd4ef3085, 0x04881d05, 0xd9d4d039, 0xe6db99e5, 0x1fa27cf8, 0xc4ac5665,
      0xf4292244, 0x432aff97, 0xab9423a7, 0xfc93a039, 0x655b59c3, 0x8f0ccc92,
      0xffeff47d, 0x85845dd1, 0x6fa87e4f, 0xfe2ce6e0, 0xa3014314, 0x4e0811a1,
      0xf7537e82, 0xbd3af235, 0x2ad7d2bb, 0xeb86d391]"

definition md5_s :: "nat list" where
  "md5_s =
     [7, 12, 17, 22, 7, 12, 17, 22, 7, 12, 17, 22, 7, 12, 17, 22,
      5, 9, 14, 20, 5, 9, 14, 20, 5, 9, 14, 20, 5, 9, 14, 20,
      4, 11, 16, 23, 4, 11, 16, 23, 4, 11, 16, 23, 4, 11, 16, 23,
      6, 10, 15, 21, 6, 10, 15, 21, 6, 10, 15, 21, 6, 10, 15, 21]"

text \<open>The bytes of a number, least significant first.\<close>

fun le_bytes :: "nat \<Rightarrow> nat \<Rightarrow> 8 word list" where
  "le_bytes 0 v = []"
| "le_bytes (Suc k) v = of_nat (v mod 256) # le_bytes k (v div 256)"

definition md5_pad :: "8 word list \<Rightarrow> 8 word list" where
  "md5_pad msg =
     msg @ [0x80] @ replicate ((119 - length msg mod 64) mod 64) 0 @ le_bytes 8 (8 * length msg)"

fun le_word :: "8 word list \<Rightarrow> 32 word" where
  "le_word [] = 0"
| "le_word (b # bs) = ucast b + 256 * le_word bs"

text \<open>The sixteen words of a block of 64 bytes.\<close>

definition block_words :: "8 word list \<Rightarrow> 32 word list" where
  "block_words block = map (\<lambda>j. le_word (take 4 (drop (4 * j) block))) [0..<16]"

definition md5_step ::
  "32 word list \<Rightarrow> 32 word \<times> 32 word \<times> 32 word \<times> 32 word \<Rightarrow> nat
   \<Rightarrow> 32 word \<times> 32 word \<times> 32 word \<times> 32 word" where
  "md5_step M st i =
     (case st of (A, B, C, D) \<Rightarrow>
        (let F = (if i < 16 then (B AND C) OR (NOT B AND D)
                  else if i < 32 then (D AND B) OR (NOT D AND C)
                  else if i < 48 then B XOR C XOR D
                  else C XOR (B OR NOT D));
             g = (if i < 16 then i
                  else if i < 32 then (5 * i + 1) mod 16
                  else if i < 48 then (3 * i + 5) mod 16
                  else (7 * i) mod 16);
             F' = F + A + md5_K ! i + M ! g
         in (D, B + word_rotl (md5_s ! i) F', B, C)))"

definition md5_block ::
  "32 word \<times> 32 word \<times> 32 word \<times> 32 word \<Rightarrow> 8 word list
   \<Rightarrow> 32 word \<times> 32 word \<times> 32 word \<times> 32 word" where
  "md5_block h block =
     (case (h, foldl (md5_step (block_words block)) h [0..<64]) of
        ((a0, b0, c0, d0), (A, B, C, D)) \<Rightarrow> (a0 + A, b0 + B, c0 + C, d0 + D))"

text \<open>The blocks of a padded message; \<open>n\<close> is the number of blocks.\<close>

fun md5_blocks ::
  "nat \<Rightarrow> 32 word \<times> 32 word \<times> 32 word \<times> 32 word \<Rightarrow> 8 word list
   \<Rightarrow> 32 word \<times> 32 word \<times> 32 word \<times> 32 word" where
  "md5_blocks 0 h bytes = h"
| "md5_blocks (Suc n) h bytes = md5_blocks n (md5_block h (take 64 bytes)) (drop 64 bytes)"

definition md5 :: "8 word list \<Rightarrow> 8 word list" where
  "md5 msg =
     (case md5_blocks (length (md5_pad msg) div 64)
             (0x67452301, 0xefcdab89, 0x98badcfe, 0x10325476) (md5_pad msg) of
        (a, b, c, d) \<Rightarrow> concat (map (\<lambda>w. le_bytes 4 (unat w)) [a, b, c, d]))"

definition hexdigest :: "8 word list \<Rightarrow> string" where
  "hexdigest bytes =
     concat (map (\<lambda>b. [hex_digit (unat b div 16), hex_digit (unat b mod 16)]) bytes)"

text \<open>\<^verbatim>\<open>_get_cache_key\<close>; \<open>combined\<close> is the text that is hashed.\<close>

definition combined :: "string \<Rightarrow> string \<Rightarrow> string" where
  "combined resume_text job_desc = take 1000 resume_text @ ''|'' @ take 500 job_desc"

definition get_cache_key :: "string \<Rightarrow> string \<Rightarrow> string" where
  "get_cache_key resume_text job_desc = hexdigest (md5 (encode (combined resume_text job_desc)))"

section \<open>Prompt\<close>

text \<open>
  The fixed text of \<^verbatim>\<open>_build_analysis_prompt\<close> around the two snippets. One character of
  it, U+2014 in the third task, is outside the modelled range and is written \<^verbatim>\<open>?\<close> here;
  the prompt is only handed to the model service.
\<close>

definition prompt_head :: string where
  "prompt_head =
     ''You are an expert resume optimization specialist. Analyze this resume against the job description and extract REAL information.'' @ [CHR 0x0A] @
     [CHR 0x0A] @
     ''RESUME:'' @ [CHR 0x0A]"

definition prompt_middle :: string where
  "prompt_middle =
     [CHR 0x0A] @
     [CHR 0x0A] @
     ''JOB DESCRIPTION:'' @ [CHR 0x0A]"

definition prompt_tail :: string where
  "prompt_tail =
     [CHR 0x0A] @
     [CHR 0x0A] @
     ''YOUR TASK:'' @ [CHR 0x0A] @
     ''1. Extract the candidate'' @ [CHR 0x27] @ ''s actual skills from their resume (NOT generic placeholders)'' @ [CHR 0x0A] @
     ''2. Identify 3-5 important keywords from the job description that are MISSING from the resume'' @ [CHR 0x0A] @
     ''3. Calculate match score: (skills candidate has / skills job requires) '' @ [CHR 0xC3] @ [CHR ''?''] @ '' 100'' @ [CHR 0x0A] @
     ''4. Write a professional 2-3 sentence summary tailored to THIS job'' @ [CHR 0x0A] @
     ''5. Generate 3-4 sentence cover letter highlighting relevant experience for THIS role'' @ [CHR 0x0A] @
     [CHR 0x0A] @
     ''RESPOND WITH ONLY VALID JSON (no markdown, no code blocks, no explanation):'' @ [CHR 0x0A] @
     ''{'' @ [CHR 0x0A] @
     ''  '' @ [CHR 0x22] @ ''skills'' @ [CHR 0x22] @ '': ['' @ [CHR 0x22] @ ''actual skill 1'' @ [CHR 0x22] @ '', '' @ [CHR 0x22] @ ''actual skill 2'' @ [CHR 0x22] @ '', '' @ [CHR 0x22] @ ''actual skill 3'' @ [CHR 0x22] @ '', '' @ [CHR 0x22] @ ''actual skill 4'' @ [CHR 0x22] @ '', '' @ [CHR 0x22] @ ''actual skill 5'' @ [CHR 0x22] @ ''],'' @ [CHR 0x0A] @
     ''  '' @ [CHR 0x22] @ ''missing_keywords'' @ [CHR 0x22] @ '': ['' @ [CHR 0x22] @ ''missing keyword 1'' @ [CHR 0x22] @ '', '' @ [CHR 0x22] @ ''missing keyword 2'' @ [CHR 0x22] @ '', '' @ [CHR 0x22] @ ''missing keyword 3'' @ [CHR 0x22] @ ''],'' @ [CHR 0x0A] @
     ''  '' @ [CHR 0x22] @ ''match_score'' @ [CHR 0x22] @ '': 75,'' @ [CHR 0x0A] @
     ''  '' @ [CHR 0x22] @ ''summary'' @ [CHR 0x22] @ '': '' @ [CHR 0x22] @ ''Professional with X years of experience in Y, skilled in Z. Proven track record of ABC. Seeking to leverage expertise in DEF.'' @ [CHR 0x22] @ '','' @ [CHR 0x0A] @
     ''  '' @ [CHR 0x22] @ ''cover_letter'' @ [CHR 0x22] @ '': '' @ [CHR 0x22] @ ''I am excited to apply for this position. With my background in X and Y, I have successfully Z. I am confident I can contribute to your team by ABC.'' @ [CHR 0x22] @ [CHR 0x0A] @
     ''}'' @ [CHR 0x0A] @
     [CHR 0x0A] @
     ''CRITICAL RULES:'' @ [CHR 0x0A] @
     ''- Extract REAL skills from resume, not placeholders like '' @ [CHR 0x22] @ ''Skill1, Skill2'' @ [CHR 0x22] @ [CHR 0x0A] @
     ''- match_score must be integer 0-100'' @ [CHR 0x0A] @
     ''- missing_keywords should be specific technical skills/tools from job description'' @ [CHR 0x0A] @
     ''- summary and cover_letter must be realistic and specific to this job, not generic templates'' @ [CHR 0x0A] @
     ''- Output ONLY the JSON object, nothing else''"

definition build_analysis_prompt :: "string \<Rightarrow> string \<Rightarrow> string" where
  "build_analysis_prompt resume_text job_desc =
     (let resume_snippet = take 2000 resume_text; job_snippet = take 1500 job_desc
      in prompt_head @ resume_snippet @ prompt_middle @ job_snippet @ prompt_tail)"

section \<open>Model service and orchestrator\<close>

text \<open>
  The model service is outside the program. A \<open>world\<close> says what it answers: whether the
  liveness request returns status 200 without an exception, and what the generation
  request for a model name and a prompt gives, either a \<^verbatim>\<open>RequestException\<close> from the
  request itself or the lines of the response, the iteration over which can itself end in
  a \<^verbatim>\<open>RequestException\<close>. Lines are modelled as text. What the program prints is not
  modelled.
\<close>

datatype stream_item = Line string | Broken

record world =
  reachable :: bool
  post :: "string \<Rightarrow> string \<Rightarrow> error + stream_item list"

text \<open>The state of an \<^verbatim>\<open>LLMEngine\<close> object.\<close>

record engine =
  model_name :: string
  cache :: "string \<rightharpoonup> analysis_result"

text \<open>The requests an analysis makes of the model service.\<close>

datatype call = Probe | Generate string string

definition test_ollama_connection :: "world \<Rightarrow> bool" where
  "test_ollama_connection w = reachable w"

text \<open>
  The loop of \<^verbatim>\<open>_call_ollama\<close> over the lines. Its inner handler catches \<^verbatim>\<open>JSONDecodeError\<close>
  only: a chunk that is no mapping raises \<^verbatim>\<open>AttributeError\<close> at \<^verbatim>\<open>chunk.get\<close>, and a
  \<^verbatim>\<open>response\<close> that is no text raises \<^verbatim>\<open>TypeError\<close> at the concatenation.
\<close>

fun read_stream :: "string \<Rightarrow> stream_item list \<Rightarrow> error + string" where
  "read_stream response_text [] = Inr response_text"
| "read_stream response_text (Broken # items) = Inl RequestException"
| "read_stream response_text (Line line # items) =
     (if line = [] then read_stream response_text items
      else
        (case json_loads line of
           Inl e \<Rightarrow> read_stream response_text items
         | Inr chunk \<Rightarrow>
             (case chunk of
                PDict kvs \<Rightarrow>
                  (case dict_get kvs ''response'' (PStr []) of
                     PStr s \<Rightarrow>
                       if truthy (dict_get kvs ''done'' (PBool False))
                       then Inr (response_text @ s)
                       else read_stream (response_text @ s) items
                   | _ \<Rightarrow> Inl TypeError)
              | _ \<Rightarrow> Inl AttributeError)))"

text \<open>The outer handler turns a \<^verbatim>\<open>RequestException\<close> into the connection error.\<close>

definition call_ollama :: "world \<Rightarrow> string \<Rightarrow> string \<Rightarrow> error + string" where
  "call_ollama w model prompt =
     (case (case post w model prompt of
              Inl e \<Rightarrow> Inl e
            | Inr items \<Rightarrow> read_stream [] items) of
        Inl e \<Rightarrow> if e = RequestException then Inl OllamaConnectionError else Inl e
      | Inr response_text \<Rightarrow> Inr (strip response_text))"

text \<open>
  \<^verbatim>\<open>analyze\<close>: the outcome, the engine afterwards and the requests made. The cache is
  assigned in one place, after the result has been built.
\<close>

definition analyze ::
  "world \<Rightarrow> engine \<Rightarrow> string \<Rightarrow> string \<Rightarrow> (error + analysis_result) \<times> engine \<times> call list" where
  "analyze w self resume_text job_desc =
     (let cache_key = get_cache_key resume_text job_desc in
      case cache self cache_key of
        Some result \<Rightarrow> (Inr result, self, [])
      | None \<Rightarrow>
          if \<not> test_ollama_connection w then (Inl CannotConnectToOllama, self, [Probe])
          else
            (let info = extract_personal_info resume_text;
                 prompt = build_analysis_prompt resume_text job_desc;
                 calls = [Probe, Generate (model_name self) prompt]
             in case call_ollama w (model_name self) prompt of
                  Inl e \<Rightarrow> (Inl e, self, calls)
                | Inr response \<Rightarrow>
                    (case build_result (extract_json_from_response response) info
                            resume_text job_desc of
                       Inl e \<Rightarrow> (Inl e, self, calls)
                     | Inr result \<Rightarrow>
                         (Inr result,
                          self\<lparr>cache := (cache self)(cache_key \<mapsto> result)\<rparr>, calls))))"

section \<open>Properties of the fallback extractors\<close>

lemma length_extract_experience:
  "1 \<le> length (extract_experience t) \<and> length (extract_experience t) \<le> 3"
  by (cases "experience_found t") (simp_all add: extract_experience_def Let_def)

lemma length_extract_education:
  "1 \<le> length (extract_education t) \<and> length (extract_education t) \<le> 2"
  by (cases "education_found t") (simp_all add: extract_education_def Let_def)

lemma experience_apply_fallbacks:
  "experience (apply_fallbacks res info t jd) = extract_experience t"
  by (simp add: apply_fallbacks_def Let_def)

lemma education_apply_fallbacks:
  "education (apply_fallbacks res info t jd) = extract_education t"
  by (simp add: apply_fallbacks_def Let_def)

text \<open>A result that is returned is the default or coerced record, passed through the fallbacks.\<close>

lemma build_result_Inr:
  "build_result parsed info t jd = Inr r \<Longrightarrow>
     \<exists>res. r = apply_fallbacks res info t jd \<and>
       (if truthy parsed then from_parsed parsed (default_result info) = Inr res
        else res = default_result info)"
  by (auto simp: build_result_def split: sum.splits if_splits)

lemma experience_found_empty: "experience_found '''' = []"
  by (simp add: experience_found_def flush_def search_words_def strip_def lstrip_def
      rstrip_def lower_def)

lemma education_found_empty: "education_found '''' = []"
  by (simp add: education_found_def search_words_def strip_def lstrip_def rstrip_def lower_def)

text \<open>
  Claim C9. For every resume text the experience extractor returns between one and three
  entries, the first three of what the scan found or the single template entry when the
  scan found nothing; the education extractor returns between one and two entries in the
  same way; hence both fields of every result that the builder returns are non-empty.
\<close>

theorem fallback_extractors_nonempty_bounded:
  "1 \<le> length (extract_experience t) \<and> length (extract_experience t) \<le> 3 \<and>
   extract_experience t =
     take 3 (if experience_found t = [] then [experience_template] else experience_found t) \<and>
   1 \<le> length (extract_education t) \<and> length (extract_education t) \<le> 2 \<and>
   extract_education t =
     take 2 (if education_found t = [] then [education_template] else education_found t) \<and>
   (build_result parsed info t jd = Inr r \<longrightarrow> experience r \<noteq> [] \<and> education r \<noteq> [])"
proof -
  have "experience r \<noteq> [] \<and> education r \<noteq> []" if "build_result parsed info t jd = Inr r"
  proof -
    from build_result_Inr [OF that] obtain res where r: "r = apply_fallbacks res info t jd"
      by blast
    have "experience r = extract_experience t" "education r = extract_education t"
      by (simp_all add: r experience_apply_fallbacks education_apply_fallbacks)
    then show ?thesis
      using length_extract_experience [of t] length_extract_education [of t] by auto
  qed
  then show ?thesis
    using length_extract_experience [of t] length_extract_education [of t]
    by (simp add: extract_experience_def extract_education_def Let_def)
qed

theorem fallback_extractors_witness:
  "build_result (PDict []) \<lparr>name = '''', email = '''', phone = ''''\<rparr> '''' '''' =
     Inr (apply_fallbacks (default_result \<lparr>name = '''', email = '''', phone = ''''\<rparr>)
            \<lparr>name = '''', email = '''', phone = ''''\<rparr> '''' '''') \<and>
   extract_experience '''' = [experience_template] \<and>
   extract_education '''' = [education_template] \<and>
   experience (apply_fallbacks (default_result \<lparr>name = '''', email = '''', phone = ''''\<rparr>)
            \<lparr>name = '''', email = '''', phone = ''''\<rparr> '''' '''') \<noteq> []"
  using fallback_extractors_nonempty_bounded
    [of "''''" "PDict []" "\<lparr>name = '''', email = '''', phone = ''''\<rparr>" "''''"
        "apply_fallbacks (default_result \<lparr>name = '''', email = '''', phone = ''''\<rparr>)
            \<lparr>name = '''', email = '''', phone = ''''\<rparr> '''' ''''"]
  by (simp add: build_result_def experience_found_empty education_found_empty)

section \<open>Properties of the field coercers\<close>

lemma dropWhile_rev_dropWhile_rev:
  assumes "xs = [] \<or> \<not> P (hd xs)"
  shows "dropWhile P (rev (dropWhile P (rev xs))) = rev (dropWhile P (rev xs))"
proof (cases "rev (dropWhile P (rev xs))")
  case Nil
  show ?thesis unfolding Nil by simp
next
  case (Cons y ys)
  have "rev xs = takeWhile P (rev xs) @ dropWhile P (rev xs)"
    by simp
  then have "xs = rev (dropWhile P (rev xs)) @ rev (takeWhile P (rev xs))"
    by (metis rev_append rev_rev_ident)
  with Cons have "xs = (y # ys) @ rev (takeWhile P (rev xs))"
    by simp
  then have "xs \<noteq> []" "hd xs = y"
    by (metis append_Cons list.distinct(1), metis append_Cons list.sel(1))
  with assms have "\<not> P y" by auto
  with Cons show ?thesis by simp
qed

lemma strip_strip: "strip (strip s) = strip s"
proof -
  let ?a = "dropWhile isspace s"
  let ?b = "rev (dropWhile isspace (rev ?a))"
  have "?a = [] \<or> \<not> isspace (hd ?a)"
    by (metis hd_dropWhile)
  then have "dropWhile isspace ?b = ?b"
    by (rule dropWhile_rev_dropWhile_rev)
  then show ?thesis
    by (simp add: strip_def lstrip_def rstrip_def)
qed

lemma strip_empty: "strip '''' = ''''"
  by (simp add: strip_def lstrip_def rstrip_def)

lemmas char_eval = code_def isspace_def isdigit_def isupper_def islower_cased_def isword_def
  lower_char_def lower_def upper_char_def upper_def lstrip_def rstrip_def strip_def
  lstrip_chars_def char_of_eq_iff Let_def

lemmas py_float_eval = py_float_def float_space_def code_def parse_decimal_def digit_part_def
  isdigit_def decimal_to_float_def nat_of_digits_def round64_def floor_log2_def
  bit_length.simps round_half_even_def lower_def lower_char_def isupper_def Let_def

lemma extract_list_default: "extract_list (PList []) = []"
  by (simp add: extract_list_def)

lemma extract_list_nonempty_trimmed:
  "x \<in> set (extract_list data) \<Longrightarrow> x \<noteq> [] \<and> strip x = x"
  by (cases data) (auto simp: extract_list_def strip_strip)

lemma extract_list_is_spec_on_truthy:
  "extract_list data =
     list_coercion_spec (case data of PList items \<Rightarrow> PList (filter truthy items) | _ \<Rightarrow> data)"
proof (cases data)
  case (PList items)
  have "map f (filter (\<lambda>item. truthy item \<and> f item \<noteq> []) xs) =
        filter (\<lambda>x. x \<noteq> []) (map f (filter truthy xs))" for f :: "pyval \<Rightarrow> string" and xs
    by (induction xs) auto
  with PList show ?thesis by (simp add: extract_list_def list_coercion_spec_def)
next
  case (PStr s)
  have "map f (filter (\<lambda>item. f item \<noteq> []) xs) = filter (\<lambda>x. x \<noteq> []) (map f xs)"
    for f :: "string \<Rightarrow> string" and xs
    by (induction xs) auto
  with PStr show ?thesis by (simp add: extract_list_def list_coercion_spec_def)
qed (simp_all add: extract_list_def list_coercion_spec_def)

lemma extract_list_example_sequence:
  "extract_list (PList [PStr ''a'', PStr '''', PStr ''b '']) = [''a'', ''b'']"
  by (simp add: extract_list_def py_str_def char_eval)

lemma extract_list_example_text:
  "extract_list (PStr ''a, b ,c'') = [''a'', ''b'', ''c'']"
  by (simp add: extract_list_def char_eval)

lemma py_str_zero: "py_str (PInt 0) = ''0''"
  by (simp add: py_str_def int_str_def nat_digits.simps char_of_eq_iff)

text \<open>
  Claim C6, as amended. The list coercion never fails. A sequence maps to its items
  converted to trimmed text, where an item is dropped when it is falsy (\<^verbatim>\<open>None\<close>, \<^verbatim>\<open>False\<close>,
  zero, empty text, empty sequence, empty mapping) or when its trimmed text is empty; a text
  is split on commas, each piece trimmed, the empty pieces dropped; any other value gives
  the empty sequence. Every returned entry is non-empty trimmed text. The three examples
  of the claim hold.
\<close>

theorem extract_list_coercion:
  "extract_list data =
     list_coercion_spec (case data of PList items \<Rightarrow> PList (filter truthy items) | _ \<Rightarrow> data) \<and>
   extract_list (PList items) =
     map (\<lambda>item. strip (py_str item))
       (filter (\<lambda>item. truthy item \<and> strip (py_str item) \<noteq> []) items) \<and>
   extract_list (PStr s) =
     map strip (filter (\<lambda>piece. strip piece \<noteq> []) (split_char CHR '','' s)) \<and>
   ((\<forall>xs. data \<noteq> PList xs) \<and> (\<forall>t. data \<noteq> PStr t) \<longrightarrow> extract_list data = []) \<and>
   (\<forall>x \<in> set (extract_list data). x \<noteq> [] \<and> strip x = x) \<and>
   extract_list (PList [PStr ''a'', PStr '''', PStr ''b '']) = [''a'', ''b''] \<and>
   extract_list (PStr ''a, b ,c'') = [''a'', ''b'', ''c''] \<and>
   extract_list (PInt 42) = []"
proof -
  have "extract_list data = []" if "\<forall>xs. data \<noteq> PList xs" "\<forall>t. data \<noteq> PStr t"
    using that by (cases data) (simp_all add: extract_list_def)
  then show ?thesis
    using extract_list_is_spec_on_truthy [of data] extract_list_nonempty_trimmed [of _ data]
      extract_list_example_sequence extract_list_example_text
    by (simp add: extract_list_def)
qed

theorem extract_list_coercion_witness:
  "extract_list (PBool True) = [] \<and>
   extract_list (PList [PStr ''a'', PStr '''', PStr ''b '']) = [''a'', ''b'']"
proof -
  have "(\<forall>xs. PBool True \<noteq> PList xs) \<and> (\<forall>t. PBool True \<noteq> PStr t)"
    by simp
  with extract_list_coercion [of "PBool True" "[]" "''''"] show ?thesis
    by blast
qed

theorem extract_list_drops_falsy_counterexample:
  "list_coercion_spec (PList [PInt 0]) = [''0''] \<and> extract_list (PList [PInt 0]) = []"
  by (simp add: list_coercion_spec_def extract_list_def py_str_zero char_eval)

lemma py_float_error: "py_float s = Inl e \<Longrightarrow> e = ValueError"
  by (auto simp: py_float_def Let_def split: prod.splits if_splits option.splits)

lemma float_to_int_error:
  "float_to_int f = Inl e \<Longrightarrow>
     (f = NaN \<and> e = ValueError) \<or> ((\<exists>neg. f = Infinity neg) \<and> e = OverflowError)"
  by (cases f) (auto simp: float_to_int_def Let_def)

lemma extract_score_range: "extract_score v = Inr i \<Longrightarrow> 0 \<le> i \<and> i \<le> 100"
  by (auto simp: extract_score_def split: sum.splits if_splits)

text \<open>The only exception that leaves the score coercion, and when.\<close>

lemma extract_score_error:
  "extract_score v = Inl e \<Longrightarrow>
     e = OverflowError \<and> (\<exists>neg. py_float (py_str v) = Inr (Infinity neg))"
  by (auto simp: extract_score_def split: sum.splits if_splits
      dest: py_float_error float_to_int_error)

lemma extract_score_infinite:
  "py_float (py_str v) = Inr (Infinity neg) \<Longrightarrow> extract_score v = Inl OverflowError"
  by (simp add: extract_score_def float_to_int_def)

lemma extract_score_not_convertible:
  "py_float (py_str v) = Inl e \<Longrightarrow> extract_score v = Inr 0"
  by (auto simp: extract_score_def dest: py_float_error)

lemma extract_score_nan:
  "py_float (py_str v) = Inr NaN \<Longrightarrow> extract_score v = Inr 0"
  by (simp add: extract_score_def float_to_int_def)

lemma extract_score_finite:
  "py_float (py_str v) = Inr (Finite neg m u) \<Longrightarrow> float_to_int (Finite neg m u) = Inr i \<Longrightarrow>
     extract_score v = Inr (max 0 (min 100 i))"
  by (simp add: extract_score_def)

lemma py_float_zero: "py_float ''0'' = Inr (Finite False 0 (- 1074))"
  by (simp add: py_float_eval)

lemma py_float_150: "py_float ''150'' = Inr (Finite False 5277655813324800 (- 45))"
  by (simp add: py_float_eval)

lemma py_float_minus_5: "py_float ''-5'' = Inr (Finite True 5629499534213120 (- 50))"
  by (simp add: py_float_eval)

lemma py_float_73_9: "py_float ''73.9'' = Inr (Finite False 5200250194729370 (- 46))"
  by (simp add: py_float_eval)

lemma py_float_abc: "py_float ''abc'' = Inl ValueError"
  by (simp add: py_float_eval)

lemma py_float_inf: "py_float ''inf'' = Inr (Infinity False)"
  by (simp add: py_float_def float_space_def code_def lower_def lower_char_def isupper_def)

lemma extract_score_default: "extract_score (PInt 0) = Inr 0"
  by (simp add: extract_score_def py_str_zero py_float_zero float_to_int_def)

text \<open>The four examples of the specification.\<close>

lemma extract_score_examples:
  "extract_score (PStr ''150'') = Inr 100"
  "extract_score (PStr ''-5'') = Inr 0"
  "extract_score (PStr ''abc'') = Inr 0"
  "extract_score (PStr ''73.9'') = Inr 73"
  by (simp_all add: extract_score_def py_str_def py_float_150 py_float_minus_5 py_float_abc
      py_float_73_9 float_to_int_def)

text \<open>
  Claim C5. The score coercion is meant never to raise, but its handler catches
  \<^verbatim>\<open>ValueError\<close> and \<^verbatim>\<open>TypeError\<close> only: the text \<^verbatim>\<open>inf\<close> and an infinite float (the JSON
  number \<^verbatim>\<open>1e999\<close>) convert to a float whose conversion to an integer raises
  \<^verbatim>\<open>OverflowError\<close>.
\<close>

theorem extract_score_infinity_raises:
  "extract_score (PStr ''inf'') = Inl OverflowError \<and>
   extract_score (PFloat (Infinity False)) = Inl OverflowError"
  by (simp add: extract_score_infinite [where neg = False] py_str_def float_repr_def
      py_float_inf)

section \<open>Properties of the result builder\<close>

lemma map_of_dict_set:
  "map_of (dict_set k v kvs) k' = (if k' = k then Some v else map_of kvs k')"
  by (induction kvs) auto

lemma dict_set_nonempty: "dict_set k v kvs \<noteq> []"
  by (cases kvs) (auto split: if_splits)

text \<open>A dictionary without the five keys yields the default record.\<close>

lemma from_parsed_defaults:
  assumes "map_of kvs ''skills'' = None" "map_of kvs ''missing_keywords'' = None"
    "map_of kvs ''match_score'' = None" "map_of kvs ''summary'' = None"
    "map_of kvs ''cover_letter'' = None"
  shows "from_parsed (PDict kvs) (default_result info) = Inr (default_result info)"
  using assms
  by (simp add: from_parsed_def dict_get_def extract_score_default extract_list_default
      py_str_def strip_empty default_result_def cong: sum.case_cong)

lemma from_parsed_cong:
  assumes "map_of kvs ''skills'' = map_of kvs' ''skills''"
    "map_of kvs ''missing_keywords'' = map_of kvs' ''missing_keywords''"
    "map_of kvs ''match_score'' = map_of kvs' ''match_score''"
    "map_of kvs ''summary'' = map_of kvs' ''summary''"
    "map_of kvs ''cover_letter'' = map_of kvs' ''cover_letter''"
  shows "from_parsed (PDict kvs) res = from_parsed (PDict kvs') res"
proof -
  have "dict_get kvs ''skills'' d = dict_get kvs' ''skills'' d"
    "dict_get kvs ''missing_keywords'' d = dict_get kvs' ''missing_keywords'' d"
    "dict_get kvs ''match_score'' d = dict_get kvs' ''match_score'' d"
    "dict_get kvs ''summary'' d = dict_get kvs' ''summary'' d"
    "dict_get kvs ''cover_letter'' d = dict_get kvs' ''cover_letter'' d" for d
    using assms by (simp_all add: dict_get_def)
  then show ?thesis by (simp add: from_parsed_def cong: sum.case_cong)
qed

text \<open>The result depends on the parsed mapping through the five keys only.\<close>

lemma build_result_cong:
  assumes "map_of kvs ''skills'' = map_of kvs' ''skills''"
    "map_of kvs ''missing_keywords'' = map_of kvs' ''missing_keywords''"
    "map_of kvs ''match_score'' = map_of kvs' ''match_score''"
    "map_of kvs ''summary'' = map_of kvs' ''summary''"
    "map_of kvs ''cover_letter'' = map_of kvs' ''cover_letter''"
  shows "build_result (PDict kvs) info t jd = build_result (PDict kvs') info t jd"
proof -
  have eq: "from_parsed (PDict kvs) (default_result info) =
      from_parsed (PDict kvs') (default_result info)"
    using assms by (rule from_parsed_cong)
  show ?thesis
  proof (cases "kvs = []")
    case True
    then have "from_parsed (PDict kvs') (default_result info) = Inr (default_result info)"
      using assms by (intro from_parsed_defaults) simp_all
    with True show ?thesis by (simp add: build_result_def)
  next
    case False
    show ?thesis
    proof (cases "kvs' = []")
      case True
      then have "from_parsed (PDict kvs) (default_result info) = Inr (default_result info)"
        using assms by (intro from_parsed_defaults) simp_all
      with True show ?thesis by (simp add: build_result_def)
    next
      case False
      with \<open>kvs \<noteq> []\<close> eq show ?thesis by (simp add: build_result_def)
    qed
  qed
qed

text \<open>
  Claim C4. Whenever the builder returns, the experience and education fields are the
  outputs of the two extractors on the resume text; and an \<^verbatim>\<open>experience\<close> or \<^verbatim>\<open>education\<close>
  value in the parsed mapping changes nothing of what the builder does.
\<close>

theorem experience_education_always_recomputed:
  "(build_result parsed info t jd = Inr r \<longrightarrow>
      experience r = extract_experience t \<and> education r = extract_education t) \<and>
   build_result (PDict (dict_set ''experience'' v kvs)) info t jd =
     build_result (PDict kvs) info t jd \<and>
   build_result (PDict (dict_set ''education'' v kvs)) info t jd =
     build_result (PDict kvs) info t jd"
proof (intro conjI impI)
  assume "build_result parsed info t jd = Inr r"
  from build_result_Inr [OF this] obtain res where "r = apply_fallbacks res info t jd"
    by blast
  then show "experience r = extract_experience t" "education r = extract_education t"
    by (simp_all add: experience_apply_fallbacks education_apply_fallbacks)
next
  show "build_result (PDict (dict_set ''experience'' v kvs)) info t jd =
     build_result (PDict kvs) info t jd"
    by (rule build_result_cong) (simp_all add: map_of_dict_set)
next
  show "build_result (PDict (dict_set ''education'' v kvs)) info t jd =
     build_result (PDict kvs) info t jd"
    by (rule build_result_cong) (simp_all add: map_of_dict_set)
qed

theorem experience_education_witness:
  "build_result (PDict (dict_set ''experience'' (PStr ''x'') []))
       \<lparr>name = '''', email = '''', phone = ''''\<rparr> '''' '''' =
     Inr (apply_fallbacks (default_result \<lparr>name = '''', email = '''', phone = ''''\<rparr>)
            \<lparr>name = '''', email = '''', phone = ''''\<rparr> '''' '''') \<and>
   experience (apply_fallbacks (default_result \<lparr>name = '''', email = '''', phone = ''''\<rparr>)
            \<lparr>name = '''', email = '''', phone = ''''\<rparr> '''' '''') = [experience_template] \<and>
   education (apply_fallbacks (default_result \<lparr>name = '''', email = '''', phone = ''''\<rparr>)
            \<lparr>name = '''', email = '''', phone = ''''\<rparr> '''' '''') = [education_template]"
  using experience_education_always_recomputed
    [of "PDict (dict_set ''experience'' (PStr ''x'') [])"
        "\<lparr>name = '''', email = '''', phone = ''''\<rparr>" "''''" "''''"
        "apply_fallbacks (default_result \<lparr>name = '''', email = '''', phone = ''''\<rparr>)
            \<lparr>name = '''', email = '''', phone = ''''\<rparr> '''' ''''"
        "PStr ''x''" "[]"]
  by (simp add: build_result_def from_parsed_defaults extract_experience_def
      extract_education_def experience_found_empty education_found_empty)

lemma skills_apply_fallbacks:
  "skills (apply_fallbacks res info t jd) =
     (if length (skills res) < 3 then extract_skills_fallback t else skills res)"
  by (auto simp: apply_fallbacks_def Let_def)

lemma unchanged_by_apply_fallbacks:
  "match_score (apply_fallbacks res info t jd) = match_score res"
  "personal_info (apply_fallbacks res info t jd) = personal_info res"
  "missing_keywords (apply_fallbacks res info t jd) = missing_keywords res"
  by (simp_all add: apply_fallbacks_def Let_def)

lemma from_parsed_Inr:
  "from_parsed parsed res0 = Inr res \<Longrightarrow>
     \<exists>kvs score. parsed = PDict kvs \<and>
       extract_score (dict_get kvs ''match_score'' (PInt 0)) = Inr score \<and>
       match_score res = score \<and> personal_info res = personal_info res0 \<and>
       skills res = extract_list (dict_get kvs ''skills'' (PList []))"
  by (auto simp: from_parsed_def split: pyval.splits sum.splits)

lemma length_skills_fallback:
  "1 \<le> length (extract_skills_fallback t) \<and> length (extract_skills_fallback t) \<le> 8"
  by (cases "found_skills t") (simp_all add: extract_skills_fallback_def placeholder_skills_def)

text \<open>What the builder guarantees of every result it returns.\<close>

lemma build_result_well_typed:
  assumes "build_result parsed info t jd = Inr r"
  shows "personal_info r = info \<and> 0 \<le> match_score r \<and> match_score r \<le> 100 \<and>
    length (experience r) \<le> 3 \<and> length (education r) \<le> 2"
proof -
  from build_result_Inr [OF assms] obtain res where r: "r = apply_fallbacks res info t jd"
    and res: "if truthy parsed then from_parsed parsed (default_result info) = Inr res
        else res = default_result info"
    by blast
  have "personal_info res = info \<and> 0 \<le> match_score res \<and> match_score res \<le> 100"
  proof (cases "truthy parsed")
    case True
    with res have "from_parsed parsed (default_result info) = Inr res" by simp
    from from_parsed_Inr [OF this] show ?thesis
      by (auto simp: default_result_def dest: extract_score_range)
  next
    case False
    with res show ?thesis by (simp add: default_result_def)
  qed
  then show ?thesis
    using length_extract_experience [of t] length_extract_education [of t]
    by (simp add: r unchanged_by_apply_fallbacks experience_apply_fallbacks
        education_apply_fallbacks)
qed

text \<open>On a mapping the builder fails in one way only: the score converts to an infinity.\<close>

lemma build_result_dict_error:
  assumes "build_result (PDict kvs) info t jd = Inl e"
  shows "e = OverflowError \<and>
    (\<exists>neg. py_float (py_str (dict_get kvs ''match_score'' (PInt 0))) = Inr (Infinity neg))"
  using assms
  by (auto simp: build_result_def from_parsed_def split: if_splits sum.splits
      dest: extract_score_error)

text \<open>
  Claim C1. The builder is meant to return a complete record for every parsed mapping, but
  a mapping whose \<^verbatim>\<open>match_score\<close> converts to an infinite float makes it raise
  \<^verbatim>\<open>OverflowError\<close>, whatever the other arguments are.
\<close>

theorem build_result_infinite_score:
  "build_result (PDict [(''match_score'', PStr ''inf'')]) info t jd = Inl OverflowError"
  by (simp add: build_result_def from_parsed_def dict_get_def py_str_def
      extract_score_infinite [where neg = False] py_float_inf)

lemma upper_common_skills:
  "map upper common_skills =
     [''PYTHON'', ''JAVASCRIPT'', ''JAVA'', ''C++'', ''SQL'', ''AWS'', ''AZURE'', ''DOCKER'',
      ''KUBERNETES'', ''REACT'', ''NODE.JS'', ''MACHINE LEARNING'', ''DATA ANALYSIS'',
      ''PROJECT MANAGEMENT'', ''AGILE'', ''GIT'', ''LINUX'', ''COMMUNICATION'', ''LEADERSHIP'']"
  by (simp add: common_skills_def char_eval)

lemma found_skills_zip:
  "found_skills t =
     map fst (filter (\<lambda>p. contains (upper t) (snd p))
       (zip common_skills (map upper common_skills)))"
proof -
  have "filter (\<lambda>skill. contains u (upper skill)) xs =
        map fst (filter (\<lambda>p. contains u (snd p)) (zip xs (map upper xs)))" for u xs
    by (induction xs) auto
  then show ?thesis by (simp add: found_skills_def Let_def)
qed

lemma upper_Python: "upper ''Python'' = ''PYTHON''"
  by (simp add: char_eval)

lemma found_skills_Python: "found_skills ''Python'' = [''Python'']"
  unfolding found_skills_zip upper_common_skills upper_Python by (simp add: common_skills_def)

lemma found_skills_empty: "found_skills '''' = []"
  unfolding found_skills_zip upper_common_skills by (simp add: common_skills_def upper_def)

text \<open>
  Claim C3, as amended. The skills field of every result the builder returns has at least
  one entry, and at least three unless the fallback is used and finds exactly one or two
  catalogue terms in the resume text. Whenever the coerced model-derived list has fewer
  than three entries it is replaced wholesale by the fallback, which returns the first
  eight (at most) of the catalogue terms that occur in the resume text without regard to
  case, or the three placeholders when none occurs.
\<close>

theorem skills_fallback_policy:
  "build_result parsed info t jd = Inr r \<longrightarrow>
     1 \<le> length (skills r) \<and>
     (found_skills t = [] \<or> 3 \<le> length (found_skills t) \<longrightarrow> 3 \<le> length (skills r)) \<and>
     (\<forall>res. truthy parsed \<and> from_parsed parsed (default_result info) = Inr res \<longrightarrow>
        skills r = (if length (skills res) < 3 then extract_skills_fallback t else skills res)) \<and>
     (\<not> truthy parsed \<longrightarrow> skills r = extract_skills_fallback t) \<and>
     length (extract_skills_fallback t) \<le> 8 \<and>
     extract_skills_fallback t =
       (if found_skills t = [] then placeholder_skills else take 8 (found_skills t)) \<and>
     found_skills t = filter (\<lambda>skill. contains (upper t) (upper skill)) common_skills \<and>
     length placeholder_skills = 3"
proof (intro impI)
  assume a: "build_result parsed info t jd = Inr r"
  from build_result_Inr [OF a] obtain res0 where r: "r = apply_fallbacks res0 info t jd"
    and res0: "if truthy parsed then from_parsed parsed (default_result info) = Inr res0
        else res0 = default_result info"
    by blast
  have s: "skills r = (if length (skills res0) < 3 then extract_skills_fallback t else skills res0)"
    by (simp add: r skills_apply_fallbacks)
  have fb: "extract_skills_fallback t =
       (if found_skills t = [] then placeholder_skills else take 8 (found_skills t))"
    by (simp add: extract_skills_fallback_def)
  have 1: "1 \<le> length (skills r)"
    using length_skills_fallback [of t] by (auto simp: s)
  have 2: "3 \<le> length (skills r)" if "found_skills t = [] \<or> 3 \<le> length (found_skills t)"
    using that by (auto simp: s fb placeholder_skills_def)
  have 3: "skills r = (if length (skills res) < 3 then extract_skills_fallback t else skills res)"
    if "truthy parsed \<and> from_parsed parsed (default_result info) = Inr res" for res
    using that res0 s by simp
  have 4: "skills r = extract_skills_fallback t" if "\<not> truthy parsed"
    using that res0 s by (simp add: default_result_def)
  show "1 \<le> length (skills r) \<and>
     (found_skills t = [] \<or> 3 \<le> length (found_skills t) \<longrightarrow> 3 \<le> length (skills r)) \<and>
     (\<forall>res. truthy parsed \<and> from_parsed parsed (default_result info) = Inr res \<longrightarrow>
        skills r = (if length (skills res) < 3 then extract_skills_fallback t else skills res)) \<and>
     (\<not> truthy parsed \<longrightarrow> skills r = extract_skills_fallback t) \<and>
     length (extract_skills_fallback t) \<le> 8 \<and>
     extract_skills_fallback t =
       (if found_skills t = [] then placeholder_skills else take 8 (found_skills t)) \<and>
     found_skills t = filter (\<lambda>skill. contains (upper t) (upper skill)) common_skills \<and>
     length placeholder_skills = 3"
    using 1 2 3 4 fb length_skills_fallback [of t]
    by (simp add: found_skills_def Let_def placeholder_skills_def)
qed

lemma extract_list_Go_Rust:
  "extract_list (PList [PStr ''Go'', PStr ''Rust'']) = [''Go'', ''Rust'']"
  by (simp add: extract_list_def py_str_def char_eval)

lemma from_parsed_Go_Rust:
  "from_parsed (PDict [(''skills'', PList [PStr ''Go'', PStr ''Rust''])]) (default_result info) =
     Inr ((default_result info)\<lparr>skills := [''Go'', ''Rust'']\<rparr>)"
  by (simp add: from_parsed_def dict_get_def extract_score_default extract_list_default
      extract_list_Go_Rust py_str_def strip_empty default_result_def)

theorem skills_fallback_policy_witness:
  "build_result (PDict [(''skills'', PList [PStr ''Go'', PStr ''Rust''])])
       \<lparr>name = '''', email = '''', phone = ''''\<rparr> '''' '''' =
     Inr (apply_fallbacks
            ((default_result \<lparr>name = '''', email = '''', phone = ''''\<rparr>)
               \<lparr>skills := [''Go'', ''Rust'']\<rparr>)
            \<lparr>name = '''', email = '''', phone = ''''\<rparr> '''' '''') \<and>
   skills (apply_fallbacks
            ((default_result \<lparr>name = '''', email = '''', phone = ''''\<rparr>)
               \<lparr>skills := [''Go'', ''Rust'']\<rparr>)
            \<lparr>name = '''', email = '''', phone = ''''\<rparr> '''' '''') =
     [''Technical Skills'', ''Problem Solving'', ''Team Collaboration'']"
  using skills_fallback_policy
    [of "PDict [(''skills'', PList [PStr ''Go'', PStr ''Rust''])]"
        "\<lparr>name = '''', email = '''', phone = ''''\<rparr>" "''''" "''''"
        "apply_fallbacks
            ((default_result \<lparr>name = '''', email = '''', phone = ''''\<rparr>)
               \<lparr>skills := [''Go'', ''Rust'']\<rparr>)
            \<lparr>name = '''', email = '''', phone = ''''\<rparr> '''' ''''"]
  by (simp add: build_result_def from_parsed_Go_Rust found_skills_empty placeholder_skills_def)

theorem skills_fewer_than_three_counterexample:
  "build_result (PDict []) \<lparr>name = '''', email = '''', phone = ''''\<rparr> ''Python'' '''' =
     Inr (apply_fallbacks (default_result \<lparr>name = '''', email = '''', phone = ''''\<rparr>)
            \<lparr>name = '''', email = '''', phone = ''''\<rparr> ''Python'' '''') \<and>
   skills (apply_fallbacks (default_result \<lparr>name = '''', email = '''', phone = ''''\<rparr>)
            \<lparr>name = '''', email = '''', phone = ''''\<rparr> ''Python'' '''') = [''Python''] \<and>
   \<not> 3 \<le> length (skills (apply_fallbacks
            (default_result \<lparr>name = '''', email = '''', phone = ''''\<rparr>)
            \<lparr>name = '''', email = '''', phone = ''''\<rparr> ''Python'' ''''))"
  by (simp add: build_result_def skills_apply_fallbacks default_result_def
      extract_skills_fallback_def found_skills_Python)

section \<open>Properties of the response normalizer\<close>

lemmas json_eval = json_loads_def json_space_def punctuation_def bare_char_def bare_value_def
  json_number_def nat_of_digits_def hex_value_def escape_char_def code_def isdigit_def Let_def

lemma extract_json_empty: "extract_json_from_response [] = PDict []"
  by (simp add: extract_json_from_response_def)

text \<open>
  What the normalizer returns need not be a mapping: the first strategy returns whatever
  the whole text decodes to, and the builder then fails on it.
\<close>

lemma strip_42: \<open>strip ''42'' = ''42''\<close>
  by (simp add: char_eval)

lemma json_loads_42: \<open>json_loads ''42'' = Inr (PInt 42)\<close>
  by (simp add: json_eval)

lemma normalizer_returns_number: \<open>extract_json_from_response ''42'' = PInt 42\<close>
  by (simp add: extract_json_from_response_def whole_candidate_def strip_42 json_loads_42)

lemma build_result_not_a_mapping: "build_result (PInt 42) info t jd = Inl AttributeError"
  by (simp add: build_result_def from_parsed_def)

text \<open>
  A mapping with an infinite score comes out of the normalizer itself: the decoder accepts
  the literal \<^verbatim>\<open>Infinity\<close>, and the builder raises on what the normalizer returns.
\<close>

lemma json_loads_infinite_score:
  \<open>json_loads ''{"match_score": Infinity}'' =
     Inr (PDict [(''match_score'', PFloat (Infinity False))])\<close>
  by (simp add: json_eval)

lemma strip_infinite_score:
  \<open>strip ''{"match_score": Infinity}'' = ''{"match_score": Infinity}''\<close>
  by (simp add: char_eval)

lemma normalizer_infinite_score:
  \<open>extract_json_from_response ''{"match_score": Infinity}'' =
     PDict [(''match_score'', PFloat (Infinity False))]\<close>
  by (simp add: extract_json_from_response_def whole_candidate_def strip_infinite_score
      json_loads_infinite_score)

lemma build_result_after_normalizer_raises:
  \<open>build_result (extract_json_from_response ''{"match_score": Infinity}'') info t jd =
     Inl OverflowError\<close>
  by (simp add: normalizer_infinite_score build_result_def from_parsed_def dict_get_def
      extract_score_infinite [where neg = False] py_str_def float_repr_def py_float_inf)















section \<open>Properties of the cache key\<close>

lemma takeWhile_sep: "s \<notin> set a \<Longrightarrow> takeWhile (\<lambda>x. x \<noteq> s) (a @ s # b) = a"
  by (induction a) auto

lemma append_sep_inj:
  assumes "a @ [s] @ b = a' @ [s] @ b'"
    and "(s \<notin> set a \<and> s \<notin> set a') \<or> length a = length a'"
  shows "a = a' \<and> b = b'"
proof -
  from assms(2) show ?thesis
  proof
    assume n: "s \<notin> set a \<and> s \<notin> set a'"
    have "takeWhile (\<lambda>x. x \<noteq> s) (a @ [s] @ b) = a"
      using n by (simp add: takeWhile_sep)
    moreover have "takeWhile (\<lambda>x. x \<noteq> s) (a' @ [s] @ b') = a'"
      using n by (simp add: takeWhile_sep)
    ultimately have "a = a'" using assms(1) by simp
    with assms(1) show ?thesis by simp
  next
    assume "length a = length a'"
    with assms(1) show ?thesis by simp
  qed
qed

lemma code_less_256: "code c < 256"
  unfolding code_def by (metis of_char_mod_256 mod_less_divisor zero_less_numeral)

lemma unat_byte: "n < 256 \<Longrightarrow> unat (of_nat n :: 8 word) = n"
  by (simp add: unat_of_nat)

lemma decode_utf8_char: "decode (utf8_char c @ bs) = c # decode bs"
proof (cases "code c < 128")
  case True
  then have "unat (of_nat (code c) :: 8 word) = code c"
    by (simp add: unat_byte)
  with True show ?thesis
    by (cases bs) (simp_all add: utf8_char_def code_def)
next
  case False
  have c: "code c < 256" by (rule code_less_256)
  then have d: "code c div 64 < 4" by simp
  have 1: "unat (of_nat (192 + code c div 64) :: 8 word) = 192 + code c div 64"
    by (rule unat_byte) (use d in simp)
  have 2: "unat (of_nat (128 + code c mod 64) :: 8 word) = 128 + code c mod 64"
    by (rule unat_byte) simp
  have "(code c div 64) * 64 + code c mod 64 = code c"
    by simp
  then have "char_of ((code c div 64) * 64 + code c mod 64) = c"
    by (simp add: code_def)
  with False 1 2 show ?thesis
    by (simp add: utf8_char_def)
qed

lemma decode_encode: "decode (encode s) = s"
  unfolding encode_def by (induction s) (simp_all add: decode_utf8_char)

lemma encode_inj: "encode s = encode t \<Longrightarrow> s = t"
  by (metis decode_encode)

text \<open>
  Claim C8, as amended. The cache key is the MD5 digest of a text that is a function of
  the first 1000 characters of the resume text and the first 500 characters of the job
  description only: requests that agree on these prefixes have the same key. Requests
  that differ in these prefixes hash different byte strings, so that they collide only if
  the digest does, provided that neither resume prefix contains the separator \<^verbatim>\<open>|\<close> or
  that the two resume prefixes have the same length; without that proviso different
  prefixes can give the same hashed text and so the same key with certainty.
\<close>

theorem cache_key_prefixes:
  "get_cache_key rt jd = hexdigest (md5 (encode (combined rt jd))) \<and>
   (take 1000 rt = take 1000 rt' \<and> take 500 jd = take 500 jd' \<longrightarrow>
      get_cache_key rt jd = get_cache_key rt' jd') \<and>
   get_cache_key rt jd = get_cache_key (take 1000 rt) (take 500 jd) \<and>
   ((take 1000 rt \<noteq> take 1000 rt' \<or> take 500 jd \<noteq> take 500 jd') \<and>
    ((CHR ''|'' \<notin> set (take 1000 rt) \<and> CHR ''|'' \<notin> set (take 1000 rt')) \<or>
     length (take 1000 rt) = length (take 1000 rt')) \<longrightarrow>
      encode (combined rt jd) \<noteq> encode (combined rt' jd'))"
proof (intro conjI impI)
  show "get_cache_key rt jd = hexdigest (md5 (encode (combined rt jd)))"
    by (simp add: get_cache_key_def)
next
  assume "take 1000 rt = take 1000 rt' \<and> take 500 jd = take 500 jd'"
  then show "get_cache_key rt jd = get_cache_key rt' jd'"
    by (simp add: get_cache_key_def combined_def)
next
  show "get_cache_key rt jd = get_cache_key (take 1000 rt) (take 500 jd)"
    by (simp add: get_cache_key_def combined_def)
next
  assume a: "(take 1000 rt \<noteq> take 1000 rt' \<or> take 500 jd \<noteq> take 500 jd') \<and>
    ((CHR ''|'' \<notin> set (take 1000 rt) \<and> CHR ''|'' \<notin> set (take 1000 rt')) \<or>
     length (take 1000 rt) = length (take 1000 rt'))"
  have "combined rt jd \<noteq> combined rt' jd'"
  proof
    assume "combined rt jd = combined rt' jd'"
    then have "take 1000 rt @ [CHR ''|''] @ take 500 jd =
        take 1000 rt' @ [CHR ''|''] @ take 500 jd'"
      by (simp add: combined_def)
    from append_sep_inj [OF this] a show False by blast
  qed
  then show "encode (combined rt jd) \<noteq> encode (combined rt' jd')"
    using encode_inj by blast
qed

theorem cache_key_prefixes_witness:
  "get_cache_key ''resume one'' ''job'' = get_cache_key (''resume one'' @ []) ''job'' \<and>
   encode (combined ''resume one'' ''job'') \<noteq> encode (combined ''resume two'' ''job'')"
  using cache_key_prefixes [of "''resume one''" "''job''" "''resume one'' @ []"  "''job''"]
    cache_key_prefixes [of "''resume one''" "''job''" "''resume two''" "''job''"]
  by simp

text \<open>Two requests with different prefixes and the same hashed text.\<close>

theorem cache_key_separator_counterexample:
  "get_cache_key ''a|b'' ''c'' = get_cache_key ''a'' ''b|c'' \<and>
   take 1000 ''a|b'' \<noteq> take 1000 ''a''"
  by (simp add: get_cache_key_def combined_def)

section \<open>Properties of the orchestrator\<close>

text \<open>
  Claim C7. After a call that returned a result, a second call with the same two texts
  returns the same result from the cache, leaves the engine as it is and makes no request
  of the model service, whatever the service would answer.
\<close>

theorem warm_cache_idempotent:
  "analyze w1 self rt jd = (Inr r, self', calls) \<longrightarrow>
     analyze w2 self' rt jd = (Inr r, self', [])"
  by (auto simp: analyze_def Let_def split: option.splits if_splits sum.splits)

lemma analyze_cold:
  "analyze \<lparr>reachable = True, post = (\<lambda>m p. Inr [])\<rparr>
      \<lparr>model_name = ''orca-mini:latest'', cache = Map.empty\<rparr> [] [] =
     (Inr (apply_fallbacks (default_result (extract_personal_info []))
             (extract_personal_info []) [] []),
      \<lparr>model_name = ''orca-mini:latest'',
       cache = [get_cache_key [] [] \<mapsto>
         apply_fallbacks (default_result (extract_personal_info []))
           (extract_personal_info []) [] []]\<rparr>,
      [Probe, Generate ''orca-mini:latest'' (build_analysis_prompt [] [])])"
  by (simp add: analyze_def test_ollama_connection_def call_ollama_def strip_empty
      extract_json_empty build_result_def Let_def)

theorem warm_cache_idempotent_witness:
  "analyze \<lparr>reachable = False, post = (\<lambda>m p. Inl RequestException)\<rparr>
      \<lparr>model_name = ''orca-mini:latest'',
       cache = [get_cache_key [] [] \<mapsto>
         apply_fallbacks (default_result (extract_personal_info []))
           (extract_personal_info []) [] []]\<rparr> [] [] =
     (Inr (apply_fallbacks (default_result (extract_personal_info []))
             (extract_personal_info []) [] []),
      \<lparr>model_name = ''orca-mini:latest'',
       cache = [get_cache_key [] [] \<mapsto>
         apply_fallbacks (default_result (extract_personal_info []))
           (extract_personal_info []) [] []]\<rparr>,
      [])"
  using warm_cache_idempotent
    [of "\<lparr>reachable = True, post = (\<lambda>m p. Inr [])\<rparr>"
        "\<lparr>model_name = ''orca-mini:latest'', cache = Map.empty\<rparr>" "[]" "[]"
        "apply_fallbacks (default_result (extract_personal_info []))
             (extract_personal_info []) [] []"
        "\<lparr>model_name = ''orca-mini:latest'',
          cache = [get_cache_key [] [] \<mapsto>
            apply_fallbacks (default_result (extract_personal_info []))
              (extract_personal_info []) [] []]\<rparr>"
        "[Probe, Generate ''orca-mini:latest'' (build_analysis_prompt [] [])]"
        "\<lparr>reachable = False, post = (\<lambda>m p. Inl RequestException)\<rparr>"]
    analyze_cold
  by simp

text \<open>
  Claim C10. An analysis that raises leaves the engine, and so the cache, as it was. On a
  cache miss an unreachable service raises the connection error after the probe alone,
  and a transport error of the generation request, at the request or while the lines are
  read, raises the call error. An analysis that returns a result has that result under the
  request's key and every other entry unchanged.
\<close>

theorem failure_leaves_cache_unchanged:
  "(analyze w self rt jd = (Inl e, self', calls) \<longrightarrow> self' = self) \<and>
   (cache self (get_cache_key rt jd) = None \<and> \<not> reachable w \<longrightarrow>
      analyze w self rt jd = (Inl CannotConnectToOllama, self, [Probe])) \<and>
   (cache self (get_cache_key rt jd) = None \<and> reachable w \<and>
    (post w (model_name self) (build_analysis_prompt rt jd) = Inl RequestException \<or>
     (\<exists>items. post w (model_name self) (build_analysis_prompt rt jd) = Inr items \<and>
        read_stream [] items = Inl RequestException)) \<longrightarrow>
      analyze w self rt jd =
        (Inl OllamaConnectionError, self,
         [Probe, Generate (model_name self) (build_analysis_prompt rt jd)])) \<and>
   (analyze w self rt jd = (Inr r, self', calls) \<longrightarrow>
      cache self' (get_cache_key rt jd) = Some r \<and> model_name self' = model_name self \<and>
      (\<forall>k. k \<noteq> get_cache_key rt jd \<longrightarrow> cache self' k = cache self k))"
  by (auto simp: analyze_def call_ollama_def test_ollama_connection_def Let_def
      split: option.splits if_splits sum.splits)

lemma json_loads_chunk:
  \<open>json_loads ''{"response": "par"}'' = Inr (PDict [(''response'', PStr ''par'')])\<close>
  by (simp add: json_eval)

lemma read_stream_broken:
  \<open>read_stream [] [Line ''{"response": "par"}'', Broken] = Inl RequestException\<close>
  by (simp add: json_loads_chunk dict_get_def)

theorem failure_leaves_cache_unchanged_witness:
  \<open>analyze \<lparr>reachable = False, post = (\<lambda>m p. Inl RequestException)\<rparr>
      \<lparr>model_name = ''orca-mini:latest'', cache = Map.empty\<rparr> [] [] =
     (Inl CannotConnectToOllama, \<lparr>model_name = ''orca-mini:latest'', cache = Map.empty\<rparr>,
      [Probe]) \<and>
   analyze \<lparr>reachable = True, post = (\<lambda>m p. Inr [Line ''{"response": "par"}'', Broken])\<rparr>
      \<lparr>model_name = ''orca-mini:latest'', cache = Map.empty\<rparr> [] [] =
     (Inl OllamaConnectionError, \<lparr>model_name = ''orca-mini:latest'', cache = Map.empty\<rparr>,
      [Probe, Generate ''orca-mini:latest'' (build_analysis_prompt [] [])])\<close>
  using failure_leaves_cache_unchanged
    [of "\<lparr>reachable = False, post = (\<lambda>m p. Inl RequestException)\<rparr>"
        "\<lparr>model_name = ''orca-mini:latest'', cache = Map.empty\<rparr>" "[]" "[]"]
    failure_leaves_cache_unchanged
    [of \<open>\<lparr>reachable = True, post = (\<lambda>m p. Inr [Line ''{"response": "par"}'', Broken])\<rparr>\<close>
        "\<lparr>model_name = ''orca-mini:latest'', cache = Map.empty\<rparr>" "[]" "[]"]
    read_stream_broken
  by simp

end
